theory Spec2Isabelle
  imports Complex_Main
begin

section \<open>Tensors and the framework operations used by modifiedLSTM.py\<close>

text \<open>
  The cells work on rank-2 tensors (\<open>[batch_size, depth]\<close>) and on one rank-1 tensor (the
  bias). A rank-2 tensor carries its static shape and its rows; a rank-1 tensor is a list.
  Entries are real numbers: the model idealises the floating-point numbers of the framework,
  apart from the saturation of \<open>tanh\<close> described below.
\<close>

datatype tensor = Tensor (dim0: nat) (dim1: nat) (vals: "real list list")

definition well_shaped :: "tensor \<Rightarrow> bool" where
  "well_shaped t = (length (vals t) = dim0 t \<and> list_all (\<lambda>row. length row = dim1 t) (vals t))"

definition has_shape :: "tensor \<Rightarrow> nat \<Rightarrow> nat \<Rightarrow> bool" where
  "has_shape t r c = (well_shaped t \<and> dim0 t = r \<and> dim1 t = c)"

definition entry :: "tensor \<Rightarrow> nat \<Rightarrow> nat \<Rightarrow> real" where
  "entry t i j = vals t ! i ! j"

definition tabulate :: "nat \<Rightarrow> nat \<Rightarrow> (nat \<Rightarrow> nat \<Rightarrow> real) \<Rightarrow> tensor" where
  "tabulate r c f = Tensor r c (map (\<lambda>i. map (f i) [0..<c]) [0..<r])"

text \<open>
  The errors of the model. \<open>ValueError\<close> is the one exception the cells raise themselves
  (in \<open>build\<close>); it carries the offending shape. \<open>OpError\<close> is a shape error raised inside a
  framework operation, \<open>AttributeError\<close> a read of \<open>self._kernel\<close> or \<open>self._bias\<close> before
  \<open>build\<close>, \<open>IndexError\<close> an \<open>inputs_shape[1]\<close> on a shape of rank below 2, and \<open>TypeError\<close>
  a state whose structure does not fit \<open>state_is_tuple\<close>.
\<close>

datatype error = ValueError "nat option list" | OpError | AttributeError | IndexError | TypeError

definition and_then :: "error + 'a \<Rightarrow> ('a \<Rightarrow> error + 'b) \<Rightarrow> error + 'b" where
  "and_then r f = (case r of Inl e \<Rightarrow> Inl e | Inr x \<Rightarrow> f x)"

subsection \<open>Elementwise operations\<close>

definition sigmoid :: "real \<Rightarrow> real" where
  "sigmoid x = 1 / (1 + exp (- x))"

definition relu :: "real \<Rightarrow> real" where
  "relu x = max 0 x"

definition map_tensor :: "(real \<Rightarrow> real) \<Rightarrow> tensor \<Rightarrow> tensor" where
  "map_tensor f t = Tensor (dim0 t) (dim1 t) (map (map f) (vals t))"

definition math_ops_sigmoid :: "tensor \<Rightarrow> tensor" where
  "math_ops_sigmoid = map_tensor sigmoid"

text \<open>
  The entries of a tensor are floating-point numbers in the program and real numbers here:
  the sums and products of the model are exact. One effect of the floating-point types is
  kept, because it decides whether a value of the cells can reach 1: at an argument of
  absolute value 20 or more the distance of \<open>tanh x\<close> from 1 or -1 is below
  \<open>2 / exp 40\<close>, which is less than half the gap between 1 and the number before it in
  float16, float32 and float64, so that \<open>math_ops.tanh\<close> returns exactly 1.0 or -1.0
  there. \<open>tanh_float\<close> is the tanh of the framework with this saturation.
\<close>

definition tanh_float :: "real \<Rightarrow> real" where
  "tanh_float x = (if 20 \<le> \<bar>x\<bar> then sgn x else tanh x)"

definition math_ops_tanh :: "tensor \<Rightarrow> tensor" where
  "math_ops_tanh = map_tensor tanh_float"

definition nn_ops_relu :: "tensor \<Rightarrow> tensor" where
  "nn_ops_relu = map_tensor relu"

definition array_ops_identity :: "tensor \<Rightarrow> tensor" where
  "array_ops_identity = map_tensor (\<lambda>x. x)"

text \<open>
  Binary elementwise operations broadcast: along each axis the two sizes are equal or
  one of them is 1; any other pair of shapes is an error of the operation.
\<close>

definition broadcast_dim :: "nat \<Rightarrow> nat \<Rightarrow> nat option" where
  "broadcast_dim m n =
     (if m = n then Some m else if m = 1 then Some n else if n = 1 then Some m else None)"

definition bat :: "tensor \<Rightarrow> nat \<Rightarrow> nat \<Rightarrow> real" where
  "bat t i j = entry t (if dim0 t = 1 then 0 else i) (if dim1 t = 1 then 0 else j)"

definition elementwise :: "(real \<Rightarrow> real \<Rightarrow> real) \<Rightarrow> tensor \<Rightarrow> tensor \<Rightarrow> error + tensor" where
  "elementwise f x y =
     (case broadcast_dim (dim0 x) (dim0 y) of
        None \<Rightarrow> Inl OpError
      | Some r \<Rightarrow>
         (case broadcast_dim (dim1 x) (dim1 y) of
            None \<Rightarrow> Inl OpError
          | Some c \<Rightarrow> Inr (tabulate r c (\<lambda>i j. f (bat x i j) (bat y i j)))))"

definition math_ops_add :: "tensor \<Rightarrow> tensor \<Rightarrow> error + tensor" where
  "math_ops_add = elementwise (\<lambda>a b. a + b)"

definition math_ops_multiply :: "tensor \<Rightarrow> tensor \<Rightarrow> error + tensor" where
  "math_ops_multiply = elementwise (\<lambda>a b. a * b)"

definition gen_math_ops_maximum :: "tensor \<Rightarrow> tensor \<Rightarrow> error + tensor" where
  "gen_math_ops_maximum = elementwise max"

subsection \<open>Matrix product and bias\<close>

definition math_ops_matmul :: "tensor \<Rightarrow> tensor \<Rightarrow> error + tensor" where
  "math_ops_matmul a b =
     (if dim1 a = dim0 b
      then Inr (tabulate (dim0 a) (dim1 b)
                 (\<lambda>i j. sum_list (map (\<lambda>k. entry a i k * entry b k j) [0..<dim1 a])))
      else Inl OpError)"

definition nn_ops_bias_add :: "tensor \<Rightarrow> real list \<Rightarrow> error + tensor" where
  "nn_ops_bias_add v b =
     (if length b = dim1 v
      then Inr (tabulate (dim0 v) (dim1 v) (\<lambda>i j. entry v i j + b ! j))
      else Inl OpError)"

subsection \<open>Split and concat\<close>

text \<open>
  \<open>array_ops.split\<close> takes either a number of equal pieces, which must divide the size of
  the axis, or the list of the pieces' sizes, which must add up to it.
\<close>

datatype splits = Num nat | Sizes "nat list"

definition split_sizes :: "nat \<Rightarrow> splits \<Rightarrow> nat list option" where
  "split_sizes d s =
     (case s of
        Num k \<Rightarrow> (if 0 < k \<and> d mod k = 0 then Some (replicate k (d div k)) else None)
      | Sizes ss \<Rightarrow> (if sum_list ss = d then Some ss else None))"

fun split_rows :: "tensor \<Rightarrow> nat \<Rightarrow> nat list \<Rightarrow> tensor list" where
  "split_rows t off [] = []"
| "split_rows t off (s # ss) =
     tabulate s (dim1 t) (\<lambda>i j. entry t (off + i) j) # split_rows t (off + s) ss"

fun split_cols :: "tensor \<Rightarrow> nat \<Rightarrow> nat list \<Rightarrow> tensor list" where
  "split_cols t off [] = []"
| "split_cols t off (s # ss) =
     tabulate (dim0 t) s (\<lambda>i j. entry t i (off + j)) # split_cols t (off + s) ss"

definition array_ops_split :: "tensor \<Rightarrow> splits \<Rightarrow> nat \<Rightarrow> error + tensor list" where
  "array_ops_split v s axis =
     (if axis = 0 then
        (case split_sizes (dim0 v) s of
           None \<Rightarrow> Inl OpError | Some ss \<Rightarrow> Inr (split_rows v 0 ss))
      else if axis = 1 then
        (case split_sizes (dim1 v) s of
           None \<Rightarrow> Inl OpError | Some ss \<Rightarrow> Inr (split_cols v 0 ss))
      else Inl OpError)"

fun split_vec :: "real list \<Rightarrow> nat list \<Rightarrow> real list list" where
  "split_vec v [] = []"
| "split_vec v (s # ss) = take s v # split_vec (drop s v) ss"

definition array_ops_split1 :: "real list \<Rightarrow> splits \<Rightarrow> nat \<Rightarrow> error + real list list" where
  "array_ops_split1 v s axis =
     (if axis = 0 then
        (case split_sizes (length v) s of
           None \<Rightarrow> Inl OpError | Some ss \<Rightarrow> Inr (split_vec v ss))
      else Inl OpError)"

definition array_ops_concat :: "tensor list \<Rightarrow> nat \<Rightarrow> error + tensor" where
  "array_ops_concat ts axis =
     (case ts of
        [] \<Rightarrow> Inl OpError
      | t # rest \<Rightarrow>
         (if axis = 0 then
            (if list_all (\<lambda>u. dim1 u = dim1 t) rest
             then Inr (Tensor (sum_list (map dim0 ts)) (dim1 t) (concat (map vals ts)))
             else Inl OpError)
          else if axis = 1 then
            (if list_all (\<lambda>u. dim0 u = dim0 t) rest
             then Inr (Tensor (dim0 t) (sum_list (map dim1 ts))
                        (map (\<lambda>i. concat (map (\<lambda>u. vals u ! i) ts)) [0..<dim0 t]))
             else Inl OpError)
          else Inl OpError))"

text \<open>Python's tuple unpacking of a list of results: the count must fit.\<close>

definition unpack2 :: "'a list \<Rightarrow> error + ('a \<times> 'a)" where
  "unpack2 xs = (case xs of [a, b] \<Rightarrow> Inr (a, b) | _ \<Rightarrow> Inl OpError)"

definition unpack3 :: "'a list \<Rightarrow> error + ('a \<times> 'a \<times> 'a)" where
  "unpack3 xs = (case xs of [a, b, c] \<Rightarrow> Inr (a, b, c) | _ \<Rightarrow> Inl OpError)"

definition unpack5 :: "'a list \<Rightarrow> error + ('a \<times> 'a \<times> 'a \<times> 'a \<times> 'a)" where
  "unpack5 xs = (case xs of [a, b, c, d, e] \<Rightarrow> Inr (a, b, c, d, e) | _ \<Rightarrow> Inl OpError)"

definition unpack7 :: "'a list \<Rightarrow> error + ('a \<times> 'a \<times> 'a \<times> 'a \<times> 'a \<times> 'a \<times> 'a)" where
  "unpack7 xs =
     (case xs of [a, b, c, d, e, f, g] \<Rightarrow> Inr (a, b, c, d, e, f, g) | _ \<Rightarrow> Inl OpError)"

text \<open>
  The source nests the operations in one expression (lines 257-258 and 436-437); the
  lifted operations take and return results, so that the model can nest them the same
  way. An error of an argument is the error of the expression, the left argument first.
\<close>

definition lift1 :: "(tensor \<Rightarrow> tensor) \<Rightarrow> error + tensor \<Rightarrow> error + tensor" where
  "lift1 f x = and_then x (\<lambda>a. Inr (f a))"

definition lift2 ::
  "(tensor \<Rightarrow> tensor \<Rightarrow> error + tensor) \<Rightarrow> error + tensor \<Rightarrow> error + tensor \<Rightarrow> error + tensor" where
  "lift2 f x y = and_then x (\<lambda>a. and_then y (\<lambda>b. f a b))"

text \<open>The local names of lines 187 and 249-253 (363 and 429-433).\<close>

definition sigmoid_t :: "error + tensor \<Rightarrow> error + tensor" where
  "sigmoid_t = lift1 math_ops_sigmoid"

definition add_t :: "error + tensor \<Rightarrow> error + tensor \<Rightarrow> error + tensor" where
  "add_t = lift2 math_ops_add"

definition multiply_t :: "error + tensor \<Rightarrow> error + tensor \<Rightarrow> error + tensor" where
  "multiply_t = lift2 math_ops_multiply"

definition tanh_t :: "error + tensor \<Rightarrow> error + tensor" where
  "tanh_t = lift1 math_ops_tanh"

definition relu_t :: "error + tensor \<Rightarrow> error + tensor" where
  "relu_t = lift1 nn_ops_relu"

definition identity_t :: "error + tensor \<Rightarrow> error + tensor" where
  "identity_t = lift1 array_ops_identity"

section \<open>The cell objects\<close>

datatype dtype = float16 | float32 | float64

datatype initializer = zeros_initializer "dtype option"

record variable =
  var_name :: string
  var_shape :: "nat list"
  var_initializer :: "initializer option"

text \<open>
  The fields of a cell: the arguments the constructor passes to the base layer
  (\<open>_reuse\<close>, \<open>name\<close>, \<open>dtype\<close>), the input specification (its \<open>ndim\<close>), the four fields of
  lines 143-146, the two variables \<open>build\<close> creates, the layer's list of variables that
  \<open>add_variable\<close> extends, and \<open>built\<close>.
\<close>

record cell =
  reuse :: "bool option"
  name :: "string option"
  dtype :: "dtype option"
  input_spec :: nat
  num_units :: nat
  forget_bias :: real
  state_is_tuple :: bool
  activation :: "real \<Rightarrow> real"
  kernel :: "variable option"
  bias :: "variable option"
  trainable_weights :: "variable list"
  built :: bool

text \<open>
  The values of the two variables live in the framework; \<open>call\<close> reads them through
  \<open>self._kernel\<close> and \<open>self._bias\<close>. The model passes them to \<open>call\<close> explicitly.
\<close>

record weights =
  kernel_value :: tensor
  bias_value :: "real list"

datatype state = LSTMStateTuple tensor tensor | StateTensor tensor

datatype state_size = LSTMStateTuple_size nat nat | Size nat

definition BIAS_VARIABLE_NAME :: string where
  "BIAS_VARIABLE_NAME = ''bias''"

definition WEIGHTS_VARIABLE_NAME :: string where
  "WEIGHTS_VARIABLE_NAME = ''kernel''"

definition concatenated_state_warning :: string where
  "concatenated_state_warning =
     ''%s: Using a concatenated state is slower and will soon be deprecated.  Use state_is_tuple=True.''"

definition add_variable ::
  "cell \<Rightarrow> string \<Rightarrow> nat list \<Rightarrow> initializer option \<Rightarrow> cell \<times> variable" where
  "add_variable self nm shape init =
     (let v = \<lparr>var_name = nm, var_shape = shape, var_initializer = init\<rparr>
      in (self\<lparr>trainable_weights := trainable_weights self @ [v]\<rparr>, v))"

subsection \<open>BasicNeatCell: constructor, sizes, build (lines 106-172)\<close>

text \<open>
  The constructor returns the cell and the warnings it logged. A warning is the format
  string together with the object that \<open>logging.warn\<close> formats into it, the cell itself,
  of which the message shows the class.
\<close>

definition BasicNeatCell_init ::
  "nat \<Rightarrow> real \<Rightarrow> bool \<Rightarrow> (real \<Rightarrow> real) option \<Rightarrow> bool option \<Rightarrow> string option \<Rightarrow> dtype option
     \<Rightarrow> cell \<times> (string \<times> string) list" where
  "BasicNeatCell_init num_units' forget_bias' state_is_tuple' activation' reuse' name' dtype' =
     (\<lparr>reuse = reuse', name = name', dtype = dtype', input_spec = 2,
       num_units = num_units', forget_bias = forget_bias', state_is_tuple = state_is_tuple',
       activation = (case activation' of None \<Rightarrow> tanh_float | Some f \<Rightarrow> f),
       kernel = None, bias = None, trainable_weights = [], built = False\<rparr>,
      if \<not> state_is_tuple' then [(concatenated_state_warning, ''BasicNeatCell'')] else [])"

definition BasicNeatCell_state_size :: "cell \<Rightarrow> state_size" where
  "BasicNeatCell_state_size self =
     (if state_is_tuple self then LSTMStateTuple_size (num_units self) (num_units self)
      else Size (2 * num_units self))"

definition BasicNeatCell_output_size :: "cell \<Rightarrow> nat" where
  "BasicNeatCell_output_size self = num_units self"

definition BasicNeatCell_build :: "cell \<Rightarrow> nat option list \<Rightarrow> error + cell" where
  "BasicNeatCell_build self inputs_shape =
     (if length inputs_shape \<le> 1 then Inl IndexError
      else
        (case inputs_shape ! 1 of
           None \<Rightarrow> Inl (ValueError inputs_shape)
         | Some input_depth \<Rightarrow>
            (let h_depth = num_units self;
                 (self1, k) = add_variable self WEIGHTS_VARIABLE_NAME
                                [input_depth + h_depth, 8 * num_units self] None;
                 (self2, b) = add_variable self1 BIAS_VARIABLE_NAME
                                [8 * num_units self] (Some (zeros_initializer (dtype self1)))
             in Inr (self2\<lparr>kernel := Some k, bias := Some b, built := True\<rparr>))))"

subsection \<open>BasicNeatCell.call (lines 174-265)\<close>

text \<open>Lines 191-195 (and 367-371): the previous cell state \<open>c\<close> and hidden state \<open>h\<close>.\<close>

definition unpack_state :: "cell \<Rightarrow> state \<Rightarrow> error + (tensor \<times> tensor)" where
  "unpack_state self st =
     (if state_is_tuple self then
        (case st of LSTMStateTuple c h \<Rightarrow> Inr (c, h) | StateTensor s \<Rightarrow> Inl TypeError)
      else
        (case st of
           StateTensor s \<Rightarrow> and_then (array_ops_split s (Num 2) 1) unpack2
         | LSTMStateTuple c h \<Rightarrow> Inl OpError))"

text \<open>
  Lines 202-223 and 235-237: the reads of the two variables and the splits of the kernel
  and of the bias. The source splits \<open>W_r\<close> after it has computed \<open>a\<close>; every failure of
  an operation from there on is the same \<open>OpError\<close>, so this order does not show in the
  result.
\<close>

definition BasicNeatCell_weights ::
  "cell \<Rightarrow> weights \<Rightarrow> nat
     \<Rightarrow> error + (tensor \<times> tensor \<times> tensor \<times> tensor \<times> real list \<times> real list)" where
  "BasicNeatCell_weights self ws input_depth =
     (if kernel self = None then Inl AttributeError
      else
        (let ratio = [num_units self * 1, num_units self * 7] in
         and_then (and_then (array_ops_split (kernel_value ws) (Sizes ratio) 1) unpack2)
           (\<lambda>(W_f, W_r).
         and_then (and_then (array_ops_split W_f (Sizes [input_depth, num_units self]) 0) unpack2)
           (\<lambda>(W_fi, W_fh).
         if bias self = None then Inl AttributeError
         else
         and_then (and_then (array_ops_split1 (bias_value ws) (Sizes ratio) 0) unpack2)
           (\<lambda>(b_f, b_r).
         and_then (and_then (array_ops_split W_r (Sizes [input_depth, num_units self]) 0) unpack2)
           (\<lambda>(W_ri, W_rh). Inr (W_fi, W_fh, W_ri, W_rh, b_f, b_r)))))))"

text \<open>Lines 228-244: the gate \<open>a\<close> and the projection \<open>bh\<close>.\<close>

definition BasicNeatCell_projections ::
  "cell \<Rightarrow> weights \<Rightarrow> tensor \<Rightarrow> tensor \<Rightarrow> error + (tensor \<times> tensor)" where
  "BasicNeatCell_projections self ws inputs h =
     (let input_depth = dim1 inputs in
      and_then (BasicNeatCell_weights self ws input_depth)
        (\<lambda>(W_fi, W_fh, W_ri, W_rh, b_f, b_r).
      and_then (lift2 math_ops_multiply (math_ops_matmul h W_fh) (math_ops_matmul inputs W_fi))
        (\<lambda>a.
      and_then (nn_ops_bias_add a b_f)
        (\<lambda>a.
      and_then (lift2 math_ops_add (math_ops_matmul h W_rh) (math_ops_matmul inputs W_ri))
        (\<lambda>bh.
      and_then (nn_ops_bias_add bh b_r)
        (\<lambda>bh. Inr (a, bh)))))))"

text \<open>Lines 246-247: the seven gates. The last one takes the name \<open>h\<close>.\<close>

definition BasicNeatCell_gates ::
  "tensor \<Rightarrow> error + (tensor \<times> tensor \<times> tensor \<times> tensor \<times> tensor \<times> tensor \<times> tensor)" where
  "BasicNeatCell_gates bh = and_then (array_ops_split bh (Num 7) 1) unpack7"

text \<open>Lines 257-258 (Nas cell 1).\<close>

definition BasicNeatCell_new_c ::
  "tensor \<Rightarrow> tensor \<Rightarrow> tensor \<Rightarrow> tensor \<Rightarrow> tensor \<Rightarrow> error + tensor" where
  "BasicNeatCell_new_c c a d g h =
     multiply_t (tanh_t (add_t (Inr c) (tanh_t (multiply_t (relu_t (Inr h)) (sigmoid_t (Inr g))))))
                (tanh_t (add_t (sigmoid_t (Inr d)) (relu_t (Inr a))))"

definition BasicNeatCell_new_h ::
  "tensor \<Rightarrow> tensor \<Rightarrow> tensor \<Rightarrow> tensor \<Rightarrow> tensor \<Rightarrow> error + tensor" where
  "BasicNeatCell_new_h new_c b c2 e f =
     tanh_t (multiply_t (identity_t (Inr new_c))
              (tanh_t (add_t (tanh_t (multiply_t (sigmoid_t (Inr e)) (tanh_t (Inr f))))
                             (sigmoid_t (add_t (sigmoid_t (Inr b)) (tanh_t (Inr c2)))))))"

text \<open>Lines 261-265 (and 440-444): the new state and the returned pair.\<close>

definition pack_state :: "cell \<Rightarrow> tensor \<Rightarrow> tensor \<Rightarrow> error + (tensor \<times> state)" where
  "pack_state self new_c new_h =
     (if state_is_tuple self then Inr (new_h, LSTMStateTuple new_c new_h)
      else and_then (array_ops_concat [new_c, new_h] 1) (\<lambda>new_state. Inr (new_h, StateTensor new_state)))"

text \<open>Lines 201-258: from \<open>c\<close>, \<open>h\<close> and the inputs to \<open>new_c\<close> and \<open>new_h\<close>.\<close>

definition BasicNeatCell_step ::
  "cell \<Rightarrow> weights \<Rightarrow> tensor \<Rightarrow> tensor \<Rightarrow> tensor \<Rightarrow> error + (tensor \<times> tensor)" where
  "BasicNeatCell_step self ws inputs c h =
     and_then (BasicNeatCell_projections self ws inputs h)
       (\<lambda>(a, bh).
     and_then (BasicNeatCell_gates bh)
       (\<lambda>(b, c2, d, e, f, g, h).
     and_then (BasicNeatCell_new_c c a d g h)
       (\<lambda>new_c.
     and_then (BasicNeatCell_new_h new_c b c2 e f)
       (\<lambda>new_h. Inr (new_c, new_h)))))"

definition BasicNeatCell_call ::
  "cell \<Rightarrow> weights \<Rightarrow> tensor \<Rightarrow> state \<Rightarrow> error + (tensor \<times> state)" where
  "BasicNeatCell_call self ws inputs st =
     and_then (unpack_state self st)
       (\<lambda>(c, h).
     and_then (BasicNeatCell_step self ws inputs c h)
       (\<lambda>(new_c, new_h). pack_state self new_c new_h))"

subsection \<open>AdvancedNeatCell: constructor, sizes, build (lines 282-348)\<close>

definition AdvancedNeatCell_init ::
  "nat \<Rightarrow> real \<Rightarrow> bool \<Rightarrow> (real \<Rightarrow> real) option \<Rightarrow> bool option \<Rightarrow> string option \<Rightarrow> dtype option
     \<Rightarrow> cell \<times> (string \<times> string) list" where
  "AdvancedNeatCell_init num_units' forget_bias' state_is_tuple' activation' reuse' name' dtype' =
     (\<lparr>reuse = reuse', name = name', dtype = dtype', input_spec = 2,
       num_units = num_units', forget_bias = forget_bias', state_is_tuple = state_is_tuple',
       activation = (case activation' of None \<Rightarrow> tanh_float | Some f \<Rightarrow> f),
       kernel = None, bias = None, trainable_weights = [], built = False\<rparr>,
      if \<not> state_is_tuple' then [(concatenated_state_warning, ''AdvancedNeatCell'')] else [])"

definition AdvancedNeatCell_state_size :: "cell \<Rightarrow> state_size" where
  "AdvancedNeatCell_state_size self =
     (if state_is_tuple self then LSTMStateTuple_size (num_units self) (num_units self)
      else Size (2 * num_units self))"

definition AdvancedNeatCell_output_size :: "cell \<Rightarrow> nat" where
  "AdvancedNeatCell_output_size self = num_units self"

definition AdvancedNeatCell_build :: "cell \<Rightarrow> nat option list \<Rightarrow> error + cell" where
  "AdvancedNeatCell_build self inputs_shape =
     (if length inputs_shape \<le> 1 then Inl IndexError
      else
        (case inputs_shape ! 1 of
           None \<Rightarrow> Inl (ValueError inputs_shape)
         | Some input_depth \<Rightarrow>
            (let h_depth = num_units self;
                 (self1, k) = add_variable self WEIGHTS_VARIABLE_NAME
                                [input_depth + h_depth, 8 * num_units self] None;
                 (self2, b) = add_variable self1 BIAS_VARIABLE_NAME
                                [8 * num_units self] (Some (zeros_initializer (dtype self1)))
             in Inr (self2\<lparr>kernel := Some k, bias := Some b, built := True\<rparr>))))"

subsection \<open>AdvancedNeatCell.call (lines 350-444)\<close>

text \<open>
  Lines 378-399 and 413-415: the reads of the two variables and the splits of the kernel
  and of the bias, in the proportion 5 to 3.
\<close>

definition AdvancedNeatCell_weights ::
  "cell \<Rightarrow> weights \<Rightarrow> nat
     \<Rightarrow> error + (tensor \<times> tensor \<times> tensor \<times> tensor \<times> real list \<times> real list)" where
  "AdvancedNeatCell_weights self ws input_depth =
     (if kernel self = None then Inl AttributeError
      else
        (let ratio = [num_units self * 5, num_units self * 3] in
         and_then (and_then (array_ops_split (kernel_value ws) (Sizes ratio) 1) unpack2)
           (\<lambda>(W_f, W_r).
         and_then (and_then (array_ops_split W_f (Sizes [input_depth, num_units self]) 0) unpack2)
           (\<lambda>(W_fi, W_fh).
         if bias self = None then Inl AttributeError
         else
         and_then (and_then (array_ops_split1 (bias_value ws) (Sizes ratio) 0) unpack2)
           (\<lambda>(b_f, b_r).
         and_then (and_then (array_ops_split W_r (Sizes [input_depth, num_units self]) 0) unpack2)
           (\<lambda>(W_ri, W_rh). Inr (W_fi, W_fh, W_ri, W_rh, b_f, b_r)))))))"

text \<open>Lines 404-407 and 419-422: the projections \<open>sw\<close> and \<open>xz\<close>.\<close>

definition AdvancedNeatCell_projections ::
  "cell \<Rightarrow> weights \<Rightarrow> tensor \<Rightarrow> tensor \<Rightarrow> error + (tensor \<times> tensor)" where
  "AdvancedNeatCell_projections self ws inputs h =
     (let input_depth = dim1 inputs in
      and_then (AdvancedNeatCell_weights self ws input_depth)
        (\<lambda>(W_fi, W_fh, W_ri, W_rh, b_f, b_r).
      and_then (lift2 math_ops_add (math_ops_matmul h W_fh) (math_ops_matmul inputs W_fi))
        (\<lambda>sw.
      and_then (nn_ops_bias_add sw b_f)
        (\<lambda>sw.
      and_then (lift2 gen_math_ops_maximum (math_ops_matmul h W_rh) (math_ops_matmul inputs W_ri))
        (\<lambda>xz.
      and_then (nn_ops_bias_add xz b_r)
        (\<lambda>xz. Inr (sw, xz)))))))"

text \<open>Lines 409-410 and 426-427: the five gates of \<open>sw\<close> and the three gates of \<open>xz\<close>.\<close>

definition AdvancedNeatCell_gates ::
  "tensor \<Rightarrow> tensor
     \<Rightarrow> error + ((tensor \<times> tensor \<times> tensor \<times> tensor \<times> tensor) \<times> (tensor \<times> tensor \<times> tensor))" where
  "AdvancedNeatCell_gates sw xz =
     and_then (and_then (array_ops_split sw (Num 5) 1) unpack5)
       (\<lambda>stuvw.
     and_then (and_then (array_ops_split xz (Num 3) 1) unpack3)
       (\<lambda>xyz. Inr (stuvw, xyz)))"

text \<open>Lines 436-437 (Nas cell 2).\<close>

definition AdvancedNeatCell_new_c ::
  "tensor \<Rightarrow> tensor \<Rightarrow> tensor \<Rightarrow> tensor \<Rightarrow> tensor \<Rightarrow> error + tensor" where
  "AdvancedNeatCell_new_c c s v y z =
     multiply_t (identity_t (add_t (identity_t (add_t (Inr c) (tanh_t (Inr z)))) (identity_t (Inr y))))
                (sigmoid_t (add_t (relu_t (Inr v)) (tanh_t (Inr s))))"

definition AdvancedNeatCell_new_h ::
  "tensor \<Rightarrow> tensor \<Rightarrow> tensor \<Rightarrow> tensor \<Rightarrow> tensor \<Rightarrow> error + tensor" where
  "AdvancedNeatCell_new_h new_c t u w x =
     tanh_t (multiply_t (identity_t (Inr new_c))
              (sigmoid_t (multiply_t (sigmoid_t (add_t (tanh_t (Inr x)) (tanh_t (Inr w))))
                                     (sigmoid_t (add_t (identity_t (Inr u)) (tanh_t (Inr t)))))))"

text \<open>Lines 377-437: from \<open>c\<close>, \<open>h\<close> and the inputs to \<open>new_c\<close> and \<open>new_h\<close>.\<close>

definition AdvancedNeatCell_step ::
  "cell \<Rightarrow> weights \<Rightarrow> tensor \<Rightarrow> tensor \<Rightarrow> tensor \<Rightarrow> error + (tensor \<times> tensor)" where
  "AdvancedNeatCell_step self ws inputs c h =
     and_then (AdvancedNeatCell_projections self ws inputs h)
       (\<lambda>(sw, xz).
     and_then (AdvancedNeatCell_gates sw xz)
       (\<lambda>((s, t, u, v, w), (x, y, z)).
     and_then (AdvancedNeatCell_new_c c s v y z)
       (\<lambda>new_c.
     and_then (AdvancedNeatCell_new_h new_c t u w x)
       (\<lambda>new_h. Inr (new_c, new_h)))))"

definition AdvancedNeatCell_call ::
  "cell \<Rightarrow> weights \<Rightarrow> tensor \<Rightarrow> state \<Rightarrow> error + (tensor \<times> state)" where
  "AdvancedNeatCell_call self ws inputs st =
     and_then (unpack_state self st)
       (\<lambda>(c, h).
     and_then (AdvancedNeatCell_step self ws inputs c h)
       (\<lambda>(new_c, new_h). pack_state self new_c new_h))"

section \<open>What the cells compute, entry by entry\<close>

text \<open>
  The statements below describe the tensors of \<open>call\<close> by their entries. \<open>K\<close>, \<open>X\<close>, \<open>C\<close>
  and \<open>H\<close> give the entries of the kernel, of the inputs and of the previous cell and
  hidden state, \<open>B\<close> is the bias, \<open>d\<close> the input depth and \<open>n\<close> the number of units.
  Column \<open>q\<close> of the kernel has an input part (rows \<open>0..d-1\<close>) and a hidden part
  (rows \<open>d..d+n-1\<close>).
\<close>

definition input_part :: "(nat \<Rightarrow> nat \<Rightarrow> real) \<Rightarrow> nat \<Rightarrow> (nat \<Rightarrow> nat \<Rightarrow> real) \<Rightarrow> nat \<Rightarrow> nat \<Rightarrow> real" where
  "input_part K d X i q = (\<Sum>l<d. X i l * K l q)"

definition hidden_part ::
  "(nat \<Rightarrow> nat \<Rightarrow> real) \<Rightarrow> nat \<Rightarrow> nat \<Rightarrow> (nat \<Rightarrow> nat \<Rightarrow> real) \<Rightarrow> nat \<Rightarrow> nat \<Rightarrow> real" where
  "hidden_part K d n H i q = (\<Sum>l<n. H i l * K (d + l) q)"

text \<open>The three ways in which the cells combine the two parts of a column.\<close>

definition sum_col ::
  "(nat \<Rightarrow> nat \<Rightarrow> real) \<Rightarrow> real list \<Rightarrow> nat \<Rightarrow> nat \<Rightarrow> (nat \<Rightarrow> nat \<Rightarrow> real) \<Rightarrow> (nat \<Rightarrow> nat \<Rightarrow> real)
     \<Rightarrow> nat \<Rightarrow> nat \<Rightarrow> real" where
  "sum_col K B d n X H i q = hidden_part K d n H i q + input_part K d X i q + B ! q"

definition product_col ::
  "(nat \<Rightarrow> nat \<Rightarrow> real) \<Rightarrow> real list \<Rightarrow> nat \<Rightarrow> nat \<Rightarrow> (nat \<Rightarrow> nat \<Rightarrow> real) \<Rightarrow> (nat \<Rightarrow> nat \<Rightarrow> real)
     \<Rightarrow> nat \<Rightarrow> nat \<Rightarrow> real" where
  "product_col K B d n X H i q = hidden_part K d n H i q * input_part K d X i q + B ! q"

definition maximum_col ::
  "(nat \<Rightarrow> nat \<Rightarrow> real) \<Rightarrow> real list \<Rightarrow> nat \<Rightarrow> nat \<Rightarrow> (nat \<Rightarrow> nat \<Rightarrow> real) \<Rightarrow> (nat \<Rightarrow> nat \<Rightarrow> real)
     \<Rightarrow> nat \<Rightarrow> nat \<Rightarrow> real" where
  "maximum_col K B d n X H i q = max (hidden_part K d n H i q) (input_part K d X i q) + B ! q"

text \<open>Lines 257-258 and 436-437 on single entries.\<close>

definition nas1_new_c :: "real \<Rightarrow> real \<Rightarrow> real \<Rightarrow> real \<Rightarrow> real \<Rightarrow> real" where
  "nas1_new_c c a d g h = tanh_float (c + tanh_float (relu h * sigmoid g)) * tanh_float (sigmoid d + relu a)"

definition nas1_new_h :: "real \<Rightarrow> real \<Rightarrow> real \<Rightarrow> real \<Rightarrow> real \<Rightarrow> real" where
  "nas1_new_h new_c b c2 e f =
     tanh_float (new_c * tanh_float (tanh_float (sigmoid e * tanh_float f) + sigmoid (sigmoid b + tanh_float c2)))"

definition nas2_new_c :: "real \<Rightarrow> real \<Rightarrow> real \<Rightarrow> real \<Rightarrow> real \<Rightarrow> real" where
  "nas2_new_c c s v y z = (c + tanh_float z + y) * sigmoid (relu v + tanh_float s)"

definition nas2_new_h :: "real \<Rightarrow> real \<Rightarrow> real \<Rightarrow> real \<Rightarrow> real \<Rightarrow> real" where
  "nas2_new_h new_c t u w x =
     tanh_float (new_c * sigmoid (sigmoid (tanh_float x + tanh_float w) * sigmoid (u + tanh_float t)))"

text \<open>
  BasicNeatCell: the gate \<open>a\<close> is column \<open>j\<close> of the kernel, the gates \<open>b\<close>, \<open>c2\<close>, \<open>d\<close>,
  \<open>e\<close>, \<open>f\<close>, \<open>g\<close>, \<open>h\<close> are the columns \<open>n + j\<close>, \<open>2n + j\<close>, ..., \<open>7n + j\<close>.
\<close>

definition BasicNeatCell_new_c_entry ::
  "(nat \<Rightarrow> nat \<Rightarrow> real) \<Rightarrow> real list \<Rightarrow> nat \<Rightarrow> nat \<Rightarrow> (nat \<Rightarrow> nat \<Rightarrow> real) \<Rightarrow> (nat \<Rightarrow> nat \<Rightarrow> real)
     \<Rightarrow> (nat \<Rightarrow> nat \<Rightarrow> real) \<Rightarrow> nat \<Rightarrow> nat \<Rightarrow> real" where
  "BasicNeatCell_new_c_entry K B d n X C H i j =
     nas1_new_c (C i j) (product_col K B d n X H i j) (sum_col K B d n X H i (3 * n + j))
       (sum_col K B d n X H i (6 * n + j)) (sum_col K B d n X H i (7 * n + j))"

definition BasicNeatCell_new_h_entry ::
  "(nat \<Rightarrow> nat \<Rightarrow> real) \<Rightarrow> real list \<Rightarrow> nat \<Rightarrow> nat \<Rightarrow> (nat \<Rightarrow> nat \<Rightarrow> real) \<Rightarrow> (nat \<Rightarrow> nat \<Rightarrow> real)
     \<Rightarrow> (nat \<Rightarrow> nat \<Rightarrow> real) \<Rightarrow> nat \<Rightarrow> nat \<Rightarrow> real" where
  "BasicNeatCell_new_h_entry K B d n X C H i j =
     nas1_new_h (BasicNeatCell_new_c_entry K B d n X C H i j)
       (sum_col K B d n X H i (n + j)) (sum_col K B d n X H i (2 * n + j))
       (sum_col K B d n X H i (4 * n + j)) (sum_col K B d n X H i (5 * n + j))"

text \<open>
  AdvancedNeatCell: the gates \<open>s\<close>, \<open>t\<close>, \<open>u\<close>, \<open>v\<close>, \<open>w\<close> are the columns \<open>j\<close>, \<open>n + j\<close>, ...,
  \<open>4n + j\<close>, the gates \<open>x\<close>, \<open>y\<close>, \<open>z\<close> the columns \<open>5n + j\<close>, \<open>6n + j\<close>, \<open>7n + j\<close>.
\<close>

definition AdvancedNeatCell_new_c_entry ::
  "(nat \<Rightarrow> nat \<Rightarrow> real) \<Rightarrow> real list \<Rightarrow> nat \<Rightarrow> nat \<Rightarrow> (nat \<Rightarrow> nat \<Rightarrow> real) \<Rightarrow> (nat \<Rightarrow> nat \<Rightarrow> real)
     \<Rightarrow> (nat \<Rightarrow> nat \<Rightarrow> real) \<Rightarrow> nat \<Rightarrow> nat \<Rightarrow> real" where
  "AdvancedNeatCell_new_c_entry K B d n X C H i j =
     nas2_new_c (C i j) (sum_col K B d n X H i j) (sum_col K B d n X H i (3 * n + j))
       (maximum_col K B d n X H i (6 * n + j)) (maximum_col K B d n X H i (7 * n + j))"

definition AdvancedNeatCell_new_h_entry ::
  "(nat \<Rightarrow> nat \<Rightarrow> real) \<Rightarrow> real list \<Rightarrow> nat \<Rightarrow> nat \<Rightarrow> (nat \<Rightarrow> nat \<Rightarrow> real) \<Rightarrow> (nat \<Rightarrow> nat \<Rightarrow> real)
     \<Rightarrow> (nat \<Rightarrow> nat \<Rightarrow> real) \<Rightarrow> nat \<Rightarrow> nat \<Rightarrow> real" where
  "AdvancedNeatCell_new_h_entry K B d n X C H i j =
     nas2_new_h (AdvancedNeatCell_new_c_entry K B d n X C H i j)
       (sum_col K B d n X H i (n + j)) (sum_col K B d n X H i (2 * n + j))
       (sum_col K B d n X H i (4 * n + j)) (maximum_col K B d n X H i (5 * n + j))"

text \<open>
  A cell is ready for inputs of depth \<open>d\<close> when \<open>build\<close> has created its two variables and
  their values have the shapes \<open>build\<close> gave them.
\<close>

definition variables_match :: "cell \<Rightarrow> weights \<Rightarrow> bool" where
  "variables_match self ws =
     (case (kernel self, bias self) of
        (Some k, Some b) \<Rightarrow>
          well_shaped (kernel_value ws)
          \<and> var_shape k = [dim0 (kernel_value ws), dim1 (kernel_value ws)]
          \<and> var_shape b = [length (bias_value ws)]
      | _ \<Rightarrow> False)"

text \<open>A state of batch size \<open>bs\<close> that fits a \<open>state_size\<close>.\<close>

fun state_matches :: "state \<Rightarrow> nat \<Rightarrow> state_size \<Rightarrow> bool" where
  "state_matches (LSTMStateTuple c h) bs (LSTMStateTuple_size m n) =
     (has_shape c bs m \<and> has_shape h bs n)"
| "state_matches (StateTensor s) bs (Size k) = has_shape s bs k"
| "state_matches (LSTMStateTuple c h) bs (Size k) = False"
| "state_matches (StateTensor s) bs (LSTMStateTuple_size m n) = False"

text \<open>The previous cell and hidden state a state carries, entry by entry.\<close>

fun state_c :: "state \<Rightarrow> nat \<Rightarrow> nat \<Rightarrow> nat \<Rightarrow> real" where
  "state_c (LSTMStateTuple c h) n i j = entry c i j"
| "state_c (StateTensor s) n i j = entry s i j"

fun state_h :: "state \<Rightarrow> nat \<Rightarrow> nat \<Rightarrow> nat \<Rightarrow> real" where
  "state_h (LSTMStateTuple c h) n i j = entry h i j"
| "state_h (StateTensor s) n i j = entry s i (n + j)"

text \<open>The state that carries \<open>new_c\<close> and \<open>new_h\<close>: the pair, or the two side by side.\<close>

definition state_of :: "bool \<Rightarrow> tensor \<Rightarrow> tensor \<Rightarrow> state" where
  "state_of is_tuple new_c new_h =
     (if is_tuple then LSTMStateTuple new_c new_h
      else StateTensor (tabulate (dim0 new_c) (dim1 new_c + dim1 new_h)
             (\<lambda>i j. if j < dim1 new_c then entry new_c i j else entry new_h i (j - dim1 new_c))))"

text \<open>The tensor of the given shape whose entries are all \<open>v\<close>, for examples.\<close>

definition fill :: "nat \<Rightarrow> nat \<Rightarrow> real \<Rightarrow> tensor" where
  "fill r c v = Tensor r c (replicate r (replicate c v))"





subsection \<open>The operations a step applies\<close>

text \<open>
  Which operations a step applies is a property of the expression, not of the function it
  computes. So the expression of lines 201-258 (377-437) is written down once more as a
  term: the leaves are the inputs, the previous cell and hidden state and the two
  variables, \<open>Op1\<close> and \<open>Op2\<close> apply an operation to one or two arguments, and \<open>Piece\<close> is one
  output of \<open>array_ops.split\<close>. \<open>eval\<close> gives such a term its value with the operations of
  the first section.
\<close>

datatype op = Sigmoid | Tanh | Relu | Identity | Add | Multiply | Maximum | MatMul | BiasAdd | Split

datatype node =
    Inputs | PrevC | PrevH | KernelVar | BiasVar
  | Op1 op node
  | Op2 op node node
  | Piece node splits nat nat

datatype val = Matrix tensor | Vector "real list"

fun un_op :: "op \<Rightarrow> val \<Rightarrow> error + val" where
  "un_op Sigmoid (Matrix t) = Inr (Matrix (math_ops_sigmoid t))"
| "un_op Tanh (Matrix t) = Inr (Matrix (math_ops_tanh t))"
| "un_op Relu (Matrix t) = Inr (Matrix (nn_ops_relu t))"
| "un_op Identity (Matrix t) = Inr (Matrix (array_ops_identity t))"
| "un_op f v = Inl OpError"

fun bin_op :: "op \<Rightarrow> val \<Rightarrow> val \<Rightarrow> error + val" where
  "bin_op Add (Matrix a) (Matrix b) = and_then (math_ops_add a b) (\<lambda>t. Inr (Matrix t))"
| "bin_op Multiply (Matrix a) (Matrix b) = and_then (math_ops_multiply a b) (\<lambda>t. Inr (Matrix t))"
| "bin_op Maximum (Matrix a) (Matrix b) = and_then (gen_math_ops_maximum a b) (\<lambda>t. Inr (Matrix t))"
| "bin_op MatMul (Matrix a) (Matrix b) = and_then (math_ops_matmul a b) (\<lambda>t. Inr (Matrix t))"
| "bin_op BiasAdd (Matrix a) (Vector b) = and_then (nn_ops_bias_add a b) (\<lambda>t. Inr (Matrix t))"
| "bin_op f u v = Inl OpError"

definition piece :: "'a list \<Rightarrow> nat \<Rightarrow> error + 'a" where
  "piece ps k = (if k < length ps then Inr (ps ! k) else Inl OpError)"

fun split_piece :: "val \<Rightarrow> splits \<Rightarrow> nat \<Rightarrow> nat \<Rightarrow> error + val" where
  "split_piece (Matrix t) sp axis k =
     and_then (array_ops_split t sp axis) (\<lambda>ps. and_then (piece ps k) (\<lambda>t. Inr (Matrix t)))"
| "split_piece (Vector u) sp axis k =
     and_then (array_ops_split1 u sp axis) (\<lambda>ps. and_then (piece ps k) (\<lambda>u. Inr (Vector u)))"

fun eval :: "cell \<Rightarrow> weights \<Rightarrow> tensor \<Rightarrow> tensor \<Rightarrow> tensor \<Rightarrow> node \<Rightarrow> error + val" where
  "eval self ws inputs c h Inputs = Inr (Matrix inputs)"
| "eval self ws inputs c h PrevC = Inr (Matrix c)"
| "eval self ws inputs c h PrevH = Inr (Matrix h)"
| "eval self ws inputs c h KernelVar =
     (if kernel self = None then Inl AttributeError else Inr (Matrix (kernel_value ws)))"
| "eval self ws inputs c h BiasVar =
     (if bias self = None then Inl AttributeError else Inr (Vector (bias_value ws)))"
| "eval self ws inputs c h (Op1 f n) = and_then (eval self ws inputs c h n) (un_op f)"
| "eval self ws inputs c h (Op2 f m n) =
     and_then (eval self ws inputs c h m) (\<lambda>u. and_then (eval self ws inputs c h n) (bin_op f u))"
| "eval self ws inputs c h (Piece n sp axis k) =
     and_then (eval self ws inputs c h n) (\<lambda>v. split_piece v sp axis k)"

fun ops_of :: "node \<Rightarrow> op set" where
  "ops_of (Op1 f n) = insert f (ops_of n)"
| "ops_of (Op2 f m n) = insert f (ops_of m \<union> ops_of n)"
| "ops_of (Piece n sp axis k) = insert Split (ops_of n)"
| "ops_of leaf = {}"

text \<open>Lines 257-258 as terms over the terms of the gates.\<close>

definition BasicNeatCell_new_c_node :: "node \<Rightarrow> node \<Rightarrow> node \<Rightarrow> node \<Rightarrow> node \<Rightarrow> node" where
  "BasicNeatCell_new_c_node c a d g h =
     Op2 Multiply (Op1 Tanh (Op2 Add c (Op1 Tanh (Op2 Multiply (Op1 Relu h) (Op1 Sigmoid g)))))
                  (Op1 Tanh (Op2 Add (Op1 Sigmoid d) (Op1 Relu a)))"

definition BasicNeatCell_new_h_node :: "node \<Rightarrow> node \<Rightarrow> node \<Rightarrow> node \<Rightarrow> node \<Rightarrow> node" where
  "BasicNeatCell_new_h_node new_c b c2 e f =
     Op1 Tanh (Op2 Multiply (Op1 Identity new_c)
               (Op1 Tanh (Op2 Add (Op1 Tanh (Op2 Multiply (Op1 Sigmoid e) (Op1 Tanh f)))
                                 (Op1 Sigmoid (Op2 Add (Op1 Sigmoid b) (Op1 Tanh c2))))))"

text \<open>Lines 201-258: the terms of \<open>new_c\<close> and \<open>new_h\<close>, line by line.\<close>

definition BasicNeatCell_graph :: "nat \<Rightarrow> nat \<Rightarrow> node \<times> node" where
  "BasicNeatCell_graph num_units' input_depth =
     (let ratio = [num_units' * 1, num_units' * 7];
          W_f = Piece KernelVar (Sizes ratio) 1 0;
          W_r = Piece KernelVar (Sizes ratio) 1 1;
          W_fi = Piece W_f (Sizes [input_depth, num_units']) 0 0;
          W_fh = Piece W_f (Sizes [input_depth, num_units']) 0 1;
          b_f = Piece BiasVar (Sizes ratio) 0 0;
          b_r = Piece BiasVar (Sizes ratio) 0 1;
          a = Op2 Multiply (Op2 MatMul PrevH W_fh) (Op2 MatMul Inputs W_fi);
          a = Op2 BiasAdd a b_f;
          W_ri = Piece W_r (Sizes [input_depth, num_units']) 0 0;
          W_rh = Piece W_r (Sizes [input_depth, num_units']) 0 1;
          bh = Op2 Add (Op2 MatMul PrevH W_rh) (Op2 MatMul Inputs W_ri);
          bh = Op2 BiasAdd bh b_r;
          b = Piece bh (Num 7) 1 0;
          c2 = Piece bh (Num 7) 1 1;
          d = Piece bh (Num 7) 1 2;
          e = Piece bh (Num 7) 1 3;
          f = Piece bh (Num 7) 1 4;
          g = Piece bh (Num 7) 1 5;
          h = Piece bh (Num 7) 1 6;
          new_c = BasicNeatCell_new_c_node PrevC a d g h;
          new_h = BasicNeatCell_new_h_node new_c b c2 e f
      in (new_c, new_h))"

text \<open>Lines 436-437 as terms over the terms of the gates.\<close>

definition AdvancedNeatCell_new_c_node :: "node \<Rightarrow> node \<Rightarrow> node \<Rightarrow> node \<Rightarrow> node \<Rightarrow> node" where
  "AdvancedNeatCell_new_c_node c s v y z =
     Op2 Multiply (Op1 Identity (Op2 Add (Op1 Identity (Op2 Add c (Op1 Tanh z))) (Op1 Identity y)))
                  (Op1 Sigmoid (Op2 Add (Op1 Relu v) (Op1 Tanh s)))"

definition AdvancedNeatCell_new_h_node :: "node \<Rightarrow> node \<Rightarrow> node \<Rightarrow> node \<Rightarrow> node \<Rightarrow> node" where
  "AdvancedNeatCell_new_h_node new_c t u w x =
     Op1 Tanh (Op2 Multiply (Op1 Identity new_c)
               (Op1 Sigmoid (Op2 Multiply (Op1 Sigmoid (Op2 Add (Op1 Tanh x) (Op1 Tanh w)))
                                         (Op1 Sigmoid (Op2 Add (Op1 Identity u) (Op1 Tanh t))))))"

text \<open>Lines 377-437: the terms of \<open>new_c\<close> and \<open>new_h\<close>, line by line.\<close>

definition AdvancedNeatCell_graph :: "nat \<Rightarrow> nat \<Rightarrow> node \<times> node" where
  "AdvancedNeatCell_graph num_units' input_depth =
     (let ratio = [num_units' * 5, num_units' * 3];
          W_f = Piece KernelVar (Sizes ratio) 1 0;
          W_r = Piece KernelVar (Sizes ratio) 1 1;
          W_fi = Piece W_f (Sizes [input_depth, num_units']) 0 0;
          W_fh = Piece W_f (Sizes [input_depth, num_units']) 0 1;
          b_f = Piece BiasVar (Sizes ratio) 0 0;
          b_r = Piece BiasVar (Sizes ratio) 0 1;
          sw = Op2 Add (Op2 MatMul PrevH W_fh) (Op2 MatMul Inputs W_fi);
          sw = Op2 BiasAdd sw b_f;
          s = Piece sw (Num 5) 1 0;
          t = Piece sw (Num 5) 1 1;
          u = Piece sw (Num 5) 1 2;
          v = Piece sw (Num 5) 1 3;
          w = Piece sw (Num 5) 1 4;
          W_ri = Piece W_r (Sizes [input_depth, num_units']) 0 0;
          W_rh = Piece W_r (Sizes [input_depth, num_units']) 0 1;
          xz = Op2 Maximum (Op2 MatMul PrevH W_rh) (Op2 MatMul Inputs W_ri);
          xz = Op2 BiasAdd xz b_r;
          x = Piece xz (Num 3) 1 0;
          y = Piece xz (Num 3) 1 1;
          z = Piece xz (Num 3) 1 2;
          new_c = AdvancedNeatCell_new_c_node PrevC s v y z;
          new_h = AdvancedNeatCell_new_h_node new_c t u w x
      in (new_c, new_h))"

text \<open>
  The operations the specification names for the transition: the four nonlinearities,
  matrix multiplication, and elementwise addition and multiplication. The addition of the
  bias counts as an addition; the split, which is no arithmetic, is admitted as well.
\<close>

definition named_ops :: "op set" where
  "named_ops = {Sigmoid, Tanh, Relu, Identity, MatMul, Add, Multiply, BiasAdd, Split}"

text \<open>A result that is the exception the cells raise themselves.\<close>

definition raises_ValueError :: "error + 'a \<Rightarrow> bool" where
  "raises_ValueError r = (case r of Inl (ValueError s) \<Rightarrow> True | _ \<Rightarrow> False)"

text \<open>The tensor of the given shape whose entries are all zero, for examples.\<close>

definition zeros :: "nat \<Rightarrow> nat \<Rightarrow> tensor" where
  "zeros r c = Tensor r c (replicate r (replicate c 0))"

section \<open>Properties of the operations\<close>

lemma and_then_simps [simp]: "and_then (Inr x) f = f x" "and_then (Inl e) f = Inl e"
  by (simp_all add: and_then_def)
lemma lift_simps [simp]: "lift1 g (Inr x) = Inr (g x)" "lift1 g (Inl e) = Inl e"
  "lift2 h (Inr x) (Inr y) = h x y" "lift2 h (Inl e) r = Inl e" "lift2 h (Inr x) (Inl e) = Inl e"
  by (simp_all add: lift1_def lift2_def)
lemma unpack_simps [simp]: "unpack2 [a, b] = Inr (a, b)" "unpack3 [a,b,c] = Inr (a,b,c)"
  "unpack5 [a,b,c,d,e] = Inr (a,b,c,d,e)" "unpack7 [a,b,c,d,e,f,g] = Inr (a,b,c,d,e,f,g)"
  by (simp_all add: unpack2_def unpack3_def unpack5_def unpack7_def)

lemma dim_tabulate [simp]: "dim0 (tabulate r c f) = r" "dim1 (tabulate r c f) = c"
  by (simp_all add: tabulate_def)

lemma well_shaped_tabulate [simp]: "well_shaped (tabulate r c f)"
  by (simp add: well_shaped_def tabulate_def list_all_iff)

lemma has_shape_tabulate [simp]: "has_shape (tabulate r c f) r' c' \<longleftrightarrow> r = r' \<and> c = c'"
  by (auto simp add: has_shape_def)

lemma entry_tabulate [simp]: "i < r \<Longrightarrow> j < c \<Longrightarrow> entry (tabulate r c f) i j = f i j"
  by (simp add: entry_def tabulate_def)

lemma tabulate_cong: "(\<And>i j. i < r \<Longrightarrow> j < c \<Longrightarrow> f i j = g i j) \<Longrightarrow> tabulate r c f = tabulate r c g"
  by (simp add: tabulate_def)

lemma tabulate_entry: 
  assumes "well_shaped t" shows "tabulate (dim0 t) (dim1 t) (entry t) = t"
proof -
  have "map (\<lambda>i. map (entry t i) [0..<dim1 t]) [0..<dim0 t] = vals t"
  proof (rule nth_equalityI)
    show "length (map (\<lambda>i. map (entry t i) [0..<dim1 t]) [0..<dim0 t]) = length (vals t)" 
      using assms by (simp add: well_shaped_def)
  next
    fix i assume "i < length (map (\<lambda>i. map (entry t i) [0..<dim1 t]) [0..<dim0 t])"
    then have i: "i < dim0 t" by simp
    then have "length (vals t ! i) = dim1 t" using assms by (simp add: well_shaped_def list_all_length)
    then have "map (entry t i) [0..<dim1 t] = vals t ! i"
      by (intro nth_equalityI) (simp_all add: entry_def)
    then show "map (\<lambda>i. map (entry t i) [0..<dim1 t]) [0..<dim0 t] ! i = vals t ! i" using i by simp
  qed
  then show ?thesis by (cases t) (simp add: tabulate_def)
qed

lemma has_shape_tabulate_entry: "has_shape t r c \<Longrightarrow> tabulate r c (entry t) = t"
  using tabulate_entry by (auto simp: has_shape_def)

lemma map_tensor_tabulate: "map_tensor g (tabulate r c f) = tabulate r c (\<lambda>i j. g (f i j))"
  by (simp add: map_tensor_def tabulate_def comp_def)

lemma elementwise_tabulate:
  "elementwise g (tabulate r c f1) (tabulate r c f2) = Inr (tabulate r c (\<lambda>i j. g (f1 i j) (f2 i j)))"
  by (auto simp add: elementwise_def broadcast_dim_def bat_def intro!: tabulate_cong)

lemma matmul_tabulate:
  "math_ops_matmul (tabulate r k f1) (tabulate k c f2) = Inr (tabulate r c (\<lambda>i j. \<Sum>l<k. f1 i l * f2 l j))"
  by (auto simp add: math_ops_matmul_def  interv_sum_list_conv_sum_set_nat atLeast0LessThan intro!: tabulate_cong sum.cong)

lemma bias_add_tabulate:
  "length b = c \<Longrightarrow> nn_ops_bias_add (tabulate r c f) b = Inr (tabulate r c (\<lambda>i j. f i j + b ! j))"
  by (auto simp add: nn_ops_bias_add_def intro!: tabulate_cong)


lemma split_cols_Cons_tabulate [simp]:
  "off + s \<le> c \<Longrightarrow> split_cols (tabulate r c f) off (s # ss) =
     tabulate r s (\<lambda>i j. f i (off + j)) # split_cols (tabulate r c f) (off + s) ss"
  by (auto intro!: tabulate_cong)

lemma split_rows_Cons_tabulate [simp]:
  "off + s \<le> r \<Longrightarrow> split_rows (tabulate r c f) off (s # ss) =
     tabulate s c (\<lambda>i j. f (off + i) j) # split_rows (tabulate r c f) (off + s) ss"
  by (auto intro!: tabulate_cong)

lemma split2_cols_tabulate:
  "c = s1 + s2 \<Longrightarrow> array_ops_split (tabulate r c f) (Sizes [s1, s2]) (Suc 0) =
     Inr [tabulate r s1 f, tabulate r s2 (\<lambda>i j. f i (s1 + j))]"
  by (auto simp add: array_ops_split_def split_sizes_def intro!: tabulate_cong)

lemma split2_rows_tabulate:
  "r = s1 + s2 \<Longrightarrow> array_ops_split (tabulate r c f) (Sizes [s1, s2]) 0 =
     Inr [tabulate s1 c f, tabulate s2 c (\<lambda>i j. f (s1 + i) j)]"
  by (auto simp add: array_ops_split_def split_sizes_def intro!: tabulate_cong)

lemma split_vec2:
  "length v = s1 + s2 \<Longrightarrow> array_ops_split1 v (Sizes [s1, s2]) 0 = Inr [take s1 v, drop s1 v]"
  by (simp add: array_ops_split1_def split_sizes_def)

lemma split_sizes_Num: "0 < k \<Longrightarrow> split_sizes (k * n) (Num k) = Some (replicate k n)"
  "0 < k \<Longrightarrow> split_sizes (n * k) (Num k) = Some (replicate k n)"
  by (simp_all add: split_sizes_def)

lemma replicate_unfold:
  "replicate 2 (n::nat) = [n, n]" "replicate 3 n = [n, n, n]" "replicate 5 n = [n, n, n, n, n]"
  "replicate 7 n = [n, n, n, n, n, n, n]"
  by (simp_all add: eval_nat_numeral)

lemma times_unfold:
  "2 * n = n + n" "3 * n = n + n + n" "4 * n = n + n + n + n" "5 * n = n + n + n + n + n"
  "6 * n = n + n + n + n + n + n" for n :: nat
  by simp_all

lemma split_Num2_tabulate:
  "array_ops_split (tabulate r (2 * n) f) (Num 2) (Suc 0) =
     Inr [tabulate r n f, tabulate r n (\<lambda>i j. f i (n + j))]"
  by (simp add: array_ops_split_def split_sizes_Num replicate_unfold del: split_cols.simps(2); simp add: times_unfold)

lemma split_Num3_tabulate:
  "array_ops_split (tabulate r (n * 3) f) (Num 3) (Suc 0) =
     Inr [tabulate r n f, tabulate r n (\<lambda>i j. f i (n + j)), tabulate r n (\<lambda>i j. f i (2 * n + j))]"
  by (simp add: array_ops_split_def split_sizes_Num replicate_unfold del: split_cols.simps(2); simp add: times_unfold)

lemma split_Num5_tabulate:
  "array_ops_split (tabulate r (n * 5) f) (Num 5) (Suc 0) =
     Inr [tabulate r n f, tabulate r n (\<lambda>i j. f i (n + j)), tabulate r n (\<lambda>i j. f i (2 * n + j)),
          tabulate r n (\<lambda>i j. f i (3 * n + j)), tabulate r n (\<lambda>i j. f i (4 * n + j))]"
  by (simp add: array_ops_split_def split_sizes_Num replicate_unfold del: split_cols.simps(2); simp add: times_unfold)

lemma split_Num7_tabulate:
  "array_ops_split (tabulate r (n * 7) f) (Num 7) (Suc 0) =
     Inr [tabulate r n f, tabulate r n (\<lambda>i j. f i (n + j)), tabulate r n (\<lambda>i j. f i (2 * n + j)),
          tabulate r n (\<lambda>i j. f i (3 * n + j)), tabulate r n (\<lambda>i j. f i (4 * n + j)),
          tabulate r n (\<lambda>i j. f i (5 * n + j)),
          tabulate r n (\<lambda>i j. f i (6 * n + j))]"
  by (simp add: array_ops_split_def split_sizes_Num replicate_unfold del: split_cols.simps(2); simp add: times_unfold)

lemma concat2_tabulate:
  "array_ops_concat [tabulate r c1 f1, tabulate r c2 f2] (Suc 0) =
     Inr (tabulate r (c1 + c2) (\<lambda>i j. if j < c1 then f1 i j else f2 i (j - c1)))"
proof -
  have *: "map (f1 i) [0..<c1] @ map (f2 i) [0..<c2] = map (\<lambda>j. if j < c1 then f1 i j else f2 i (j - c1)) [0..<c1 + c2]" for i
    by (rule nth_equalityI) (simp_all add: nth_append)
  show ?thesis
    by (simp add: array_ops_concat_def tabulate_def *)
qed


lemma tabulate_cong' [cong]:
  "r = r' \<Longrightarrow> c = c' \<Longrightarrow> (\<And>i j. i < r' \<Longrightarrow> j < c' \<Longrightarrow> f i j = g i j) \<Longrightarrow> tabulate r c f = tabulate r' c' g"
  by (simp add: tabulate_def)

lemmas op_tabulate = map_tensor_tabulate elementwise_tabulate matmul_tabulate bias_add_tabulate
  split2_cols_tabulate split2_rows_tabulate split_vec2 split_Num2_tabulate split_Num3_tabulate
  split_Num5_tabulate split_Num7_tabulate concat2_tabulate

lemma basic_weights_tabulate:
  assumes "kernel self \<noteq> None" "bias self \<noteq> None" "num_units self = n" "length B = 8 * n"
  shows "BasicNeatCell_weights self \<lparr>kernel_value = tabulate (d + n) (8 * n) K, bias_value = B\<rparr> d =
    Inr (tabulate d n K, tabulate n n (\<lambda>i. K (d + i)), tabulate d (n * 7) (\<lambda>i j. K i (n + j)),
         tabulate n (n * 7) (\<lambda>i j. K (d + i) (n + j)), take n B, drop n B)"
  using assms by (simp add: BasicNeatCell_weights_def op_tabulate Let_def)

lemma basic_projections_tabulate:
  assumes "kernel self \<noteq> None" "bias self \<noteq> None" "num_units self = n" "length B = 8 * n"
  shows "BasicNeatCell_projections self \<lparr>kernel_value = tabulate (d + n) (8 * n) K, bias_value = B\<rparr>
           (tabulate bs d X) (tabulate bs n H) =
         Inr (tabulate bs n (\<lambda>i j. (\<Sum>l<n. H i l * K (d + l) j) * (\<Sum>l<d. X i l * K l j) + B ! j),
              tabulate bs (n * 7) (\<lambda>i j. (\<Sum>l<n. H i l * K (d + l) (n + j)) +
                 (\<Sum>l<d. X i l * K l (n + j)) + B ! (n + j)))"
  using assms 
  by (simp add: BasicNeatCell_projections_def basic_weights_tabulate op_tabulate Let_def math_ops_multiply_def math_ops_add_def)

lemmas unary_defs = multiply_t_def add_t_def tanh_t_def sigmoid_t_def relu_t_def identity_t_def
    math_ops_tanh_def math_ops_sigmoid_def nn_ops_relu_def array_ops_identity_def
    math_ops_multiply_def math_ops_add_def gen_math_ops_maximum_def



lemma two_off: "n + (n + j) = 2 * n + (j::nat)" "n * 5 + j = 5 * n + j"
  "n * 5 + (n + j) = 6 * n + j" "n * 5 + (2 * n + j) = 7 * n + j"
  by simp_all

lemmas entry_defs = input_part_def hidden_part_def sum_col_def product_col_def maximum_col_def
  nas1_new_c_def nas1_new_h_def nas2_new_c_def nas2_new_h_def
  BasicNeatCell_new_c_entry_def BasicNeatCell_new_h_entry_def
  AdvancedNeatCell_new_c_entry_def AdvancedNeatCell_new_h_entry_def

lemma basic_step_tabulate:
  assumes "kernel self \<noteq> None" "bias self \<noteq> None" "num_units self = n" "length B = 8 * n"
  shows "BasicNeatCell_step self \<lparr>kernel_value = tabulate (d + n) (8 * n) K, bias_value = B\<rparr>
           (tabulate bs d X) (tabulate bs n C) (tabulate bs n H) =
         Inr (tabulate bs n (BasicNeatCell_new_c_entry K B d n X C H),
              tabulate bs n (BasicNeatCell_new_h_entry K B d n X C H))"
  using assms 
  by (simp add: BasicNeatCell_step_def basic_projections_tabulate BasicNeatCell_gates_def
     BasicNeatCell_new_c_def BasicNeatCell_new_h_def op_tabulate unary_defs entry_defs two_off)

lemma advanced_weights_tabulate:
  assumes "kernel self \<noteq> None" "bias self \<noteq> None" "num_units self = n" "length B = 8 * n"
  shows "AdvancedNeatCell_weights self \<lparr>kernel_value = tabulate (d + n) (8 * n) K, bias_value = B\<rparr> d =
    Inr (tabulate d (n * 5) K, tabulate n (n * 5) (\<lambda>i. K (d + i)), tabulate d (n * 3) (\<lambda>i j. K i (n * 5 + j)),
         tabulate n (n * 3) (\<lambda>i j. K (d + i) (n * 5 + j)), take (n * 5) B, drop (n * 5) B)"
  using assms by (simp add: AdvancedNeatCell_weights_def op_tabulate Let_def)

lemma advanced_projections_tabulate:
  assumes "kernel self \<noteq> None" "bias self \<noteq> None" "num_units self = n" "length B = 8 * n"
  shows "AdvancedNeatCell_projections self \<lparr>kernel_value = tabulate (d + n) (8 * n) K, bias_value = B\<rparr>
           (tabulate bs d X) (tabulate bs n H) =
         Inr (tabulate bs (n * 5) (\<lambda>i j. (\<Sum>l<n. H i l * K (d + l) j) + (\<Sum>l<d. X i l * K l j) + B ! j),
              tabulate bs (n * 3) (\<lambda>i j. max (\<Sum>l<n. H i l * K (d + l) (n * 5 + j))
                 (\<Sum>l<d. X i l * K l (n * 5 + j)) + B ! (n * 5 + j)))"
  using assms 
  by (simp add: AdvancedNeatCell_projections_def advanced_weights_tabulate op_tabulate Let_def unary_defs)

lemma advanced_step_tabulate:
  assumes "kernel self \<noteq> None" "bias self \<noteq> None" "num_units self = n" "length B = 8 * n"
  shows "AdvancedNeatCell_step self \<lparr>kernel_value = tabulate (d + n) (8 * n) K, bias_value = B\<rparr>
           (tabulate bs d X) (tabulate bs n C) (tabulate bs n H) =
         Inr (tabulate bs n (AdvancedNeatCell_new_c_entry K B d n X C H),
              tabulate bs n (AdvancedNeatCell_new_h_entry K B d n X C H))"
  using assms 
  by (simp add: AdvancedNeatCell_step_def advanced_projections_tabulate AdvancedNeatCell_gates_def
     AdvancedNeatCell_new_c_def AdvancedNeatCell_new_h_def op_tabulate unary_defs entry_defs two_off)


lemma weights_eta [simp]: "\<lparr>kernel_value = kernel_value ws, bias_value = bias_value ws\<rparr> = ws"
  by (cases ws) simp

lemma basic_step_shaped:
  assumes "kernel self \<noteq> None" "bias self \<noteq> None" "num_units self = n"
    "has_shape (kernel_value ws) (d + n) (8 * n)" "length (bias_value ws) = 8 * n"
    "has_shape x bs d" "has_shape c bs n" "has_shape h bs n"
  shows "BasicNeatCell_step self ws x c h =
         Inr (tabulate bs n (BasicNeatCell_new_c_entry (entry (kernel_value ws)) (bias_value ws) d n (entry x) (entry c) (entry h)),
              tabulate bs n (BasicNeatCell_new_h_entry (entry (kernel_value ws)) (bias_value ws) d n (entry x) (entry c) (entry h)))"
  using basic_step_tabulate[OF assms(1,2,3,5), of d "entry (kernel_value ws)" bs "entry x" "entry c" "entry h"] assms(4,6,7,8)
  by (simp add: has_shape_tabulate_entry)

lemma advanced_step_shaped:
  assumes "kernel self \<noteq> None" "bias self \<noteq> None" "num_units self = n"
    "has_shape (kernel_value ws) (d + n) (8 * n)" "length (bias_value ws) = 8 * n"
    "has_shape x bs d" "has_shape c bs n" "has_shape h bs n"
  shows "AdvancedNeatCell_step self ws x c h =
         Inr (tabulate bs n (AdvancedNeatCell_new_c_entry (entry (kernel_value ws)) (bias_value ws) d n (entry x) (entry c) (entry h)),
              tabulate bs n (AdvancedNeatCell_new_h_entry (entry (kernel_value ws)) (bias_value ws) d n (entry x) (entry c) (entry h)))"
  using advanced_step_tabulate[OF assms(1,2,3,5), of d "entry (kernel_value ws)" bs "entry x" "entry c" "entry h"] assms(4,6,7,8)
  by (simp add: has_shape_tabulate_entry)

lemma unpack_state_tuple:
  "state_is_tuple self \<Longrightarrow> unpack_state self (LSTMStateTuple c h) = Inr (c, h)"
  by (simp add: unpack_state_def)

lemma unpack_state_tensor:
  assumes "\<not> state_is_tuple self" "has_shape s bs (2 * n)"
  shows "unpack_state self (StateTensor s) = Inr (tabulate bs n (entry s), tabulate bs n (\<lambda>i j. entry s i (n + j)))"
proof -
  have "s = tabulate bs (2 * n) (entry s)" using assms(2) by (simp add: has_shape_tabulate_entry)
  then have "array_ops_split s (Num 2) (Suc 0) = Inr [tabulate bs n (entry s), tabulate bs n (\<lambda>i j. entry s i (n + j))]"
    using split_Num2_tabulate[of bs n "entry s"] by simp
  then show ?thesis using assms(1) by (simp add: unpack_state_def)
qed

lemma pack_state_tabulate:
  "pack_state self (tabulate bs n f) (tabulate bs n g) =
     Inr (tabulate bs n g, state_of (state_is_tuple self) (tabulate bs n f) (tabulate bs n g))"
  by (auto simp add: pack_state_def state_of_def concat2_tabulate intro!: tabulate_cong)

lemma state_matches_cases:
  assumes "state_matches st bs (if tup then LSTMStateTuple_size n n else Size (2 * n))"
  obtains c h where "tup" "st = LSTMStateTuple c h" "has_shape c bs n" "has_shape h bs n"
  | s where "\<not> tup" "st = StateTensor s" "has_shape s bs (2 * n)"
  using assms by (cases st; cases tup) auto

lemma basic_call_shaped:
  assumes "kernel self \<noteq> None" "bias self \<noteq> None" "num_units self = n"
    "has_shape (kernel_value ws) (d + n) (8 * n)" "length (bias_value ws) = 8 * n"
    "has_shape x bs d" "state_matches st bs (BasicNeatCell_state_size self)"
  shows "BasicNeatCell_call self ws x st =
         Inr (tabulate bs n (BasicNeatCell_new_h_entry (entry (kernel_value ws)) (bias_value ws) d n (entry x) (state_c st n) (state_h st n)),
              state_of (state_is_tuple self)
                (tabulate bs n (BasicNeatCell_new_c_entry (entry (kernel_value ws)) (bias_value ws) d n (entry x) (state_c st n) (state_h st n)))
                (tabulate bs n (BasicNeatCell_new_h_entry (entry (kernel_value ws)) (bias_value ws) d n (entry x) (state_c st n) (state_h st n))))"
proof -
  from assms(3,7) have "state_matches st bs (if state_is_tuple self then LSTMStateTuple_size n n else Size (2 * n))"
    by (auto simp add: BasicNeatCell_state_size_def)
  then show ?thesis
  proof (cases rule: state_matches_cases)
    case (1 c h)
    have "state_c (LSTMStateTuple c h) n = entry c" "state_h (LSTMStateTuple c h) n = entry h"
      by (auto intro!: ext)
    then show ?thesis using 1 basic_step_shaped[OF assms(1-6) 1(3,4)]
      by (simp add: BasicNeatCell_call_def unpack_state_tuple pack_state_tabulate)
  next
    case (2 s)
    have eq: "state_c (StateTensor s) n = entry s"
      "state_h (StateTensor s) n = (\<lambda>i j. entry s i (n + j))"
      by (auto intro!: ext)
    have "BasicNeatCell_step self ws x (tabulate bs n (entry s)) (tabulate bs n (\<lambda>i j. entry s i (n + j))) =
      Inr (tabulate bs n (BasicNeatCell_new_c_entry (entry (kernel_value ws)) (bias_value ws) d n (entry x) (entry s) (\<lambda>i j. entry s i (n + j))),
           tabulate bs n (BasicNeatCell_new_h_entry (entry (kernel_value ws)) (bias_value ws) d n (entry x) (entry s) (\<lambda>i j. entry s i (n + j))))"
      using basic_step_tabulate[OF assms(1,2,3,5), of d "entry (kernel_value ws)" bs "entry x" "entry s" "\<lambda>i j. entry s i (n + j)"] assms(4,6)
      by (simp add: has_shape_tabulate_entry)
    then show ?thesis using 2 unpack_state_tensor[OF 2(1,3)]
      by (simp add: BasicNeatCell_call_def pack_state_tabulate eq)
  qed
qed

lemma advanced_call_shaped:
  assumes "kernel self \<noteq> None" "bias self \<noteq> None" "num_units self = n"
    "has_shape (kernel_value ws) (d + n) (8 * n)" "length (bias_value ws) = 8 * n"
    "has_shape x bs d" "state_matches st bs (AdvancedNeatCell_state_size self)"
  shows "AdvancedNeatCell_call self ws x st =
         Inr (tabulate bs n (AdvancedNeatCell_new_h_entry (entry (kernel_value ws)) (bias_value ws) d n (entry x) (state_c st n) (state_h st n)),
              state_of (state_is_tuple self)
                (tabulate bs n (AdvancedNeatCell_new_c_entry (entry (kernel_value ws)) (bias_value ws) d n (entry x) (state_c st n) (state_h st n)))
                (tabulate bs n (AdvancedNeatCell_new_h_entry (entry (kernel_value ws)) (bias_value ws) d n (entry x) (state_c st n) (state_h st n))))"
proof -
  from assms(3,7) have "state_matches st bs (if state_is_tuple self then LSTMStateTuple_size n n else Size (2 * n))"
    by (auto simp add: AdvancedNeatCell_state_size_def)
  then show ?thesis
  proof (cases rule: state_matches_cases)
    case (1 c h)
    have "state_c (LSTMStateTuple c h) n = entry c" "state_h (LSTMStateTuple c h) n = entry h"
      by (auto intro!: ext)
    then show ?thesis using 1 advanced_step_shaped[OF assms(1-6) 1(3,4)]
      by (simp add: AdvancedNeatCell_call_def unpack_state_tuple pack_state_tabulate)
  next
    case (2 s)
    have eq: "state_c (StateTensor s) n = entry s"
      "state_h (StateTensor s) n = (\<lambda>i j. entry s i (n + j))"
      by (auto intro!: ext)
    have "AdvancedNeatCell_step self ws x (tabulate bs n (entry s)) (tabulate bs n (\<lambda>i j. entry s i (n + j))) =
      Inr (tabulate bs n (AdvancedNeatCell_new_c_entry (entry (kernel_value ws)) (bias_value ws) d n (entry x) (entry s) (\<lambda>i j. entry s i (n + j))),
           tabulate bs n (AdvancedNeatCell_new_h_entry (entry (kernel_value ws)) (bias_value ws) d n (entry x) (entry s) (\<lambda>i j. entry s i (n + j))))"
      using advanced_step_tabulate[OF assms(1,2,3,5), of d "entry (kernel_value ws)" bs "entry x" "entry s" "\<lambda>i j. entry s i (n + j)"] assms(4,6)
      by (simp add: has_shape_tabulate_entry)
    then show ?thesis using 2 unpack_state_tensor[OF 2(1,3)]
      by (simp add: AdvancedNeatCell_call_def pack_state_tabulate eq)
  qed
qed


lemma basic_build_Inr:
  "BasicNeatCell_build self0 [b, Some d] =
     Inr (self0\<lparr>kernel := Some \<lparr>var_name = ''kernel'', var_shape = [d + num_units self0, 8 * num_units self0], var_initializer = None\<rparr>,
               bias := Some \<lparr>var_name = ''bias'', var_shape = [8 * num_units self0], var_initializer = Some (zeros_initializer (dtype self0))\<rparr>,
               trainable_weights := trainable_weights self0 @
                 [\<lparr>var_name = ''kernel'', var_shape = [d + num_units self0, 8 * num_units self0], var_initializer = None\<rparr>,
                  \<lparr>var_name = ''bias'', var_shape = [8 * num_units self0], var_initializer = Some (zeros_initializer (dtype self0))\<rparr>],
               built := True\<rparr>)"
  by (simp add: BasicNeatCell_build_def add_variable_def WEIGHTS_VARIABLE_NAME_def BIAS_VARIABLE_NAME_def Let_def)

lemma advanced_build_Inr:
  "AdvancedNeatCell_build self0 [b, Some d] =
     Inr (self0\<lparr>kernel := Some \<lparr>var_name = ''kernel'', var_shape = [d + num_units self0, 8 * num_units self0], var_initializer = None\<rparr>,
               bias := Some \<lparr>var_name = ''bias'', var_shape = [8 * num_units self0], var_initializer = Some (zeros_initializer (dtype self0))\<rparr>,
               trainable_weights := trainable_weights self0 @
                 [\<lparr>var_name = ''kernel'', var_shape = [d + num_units self0, 8 * num_units self0], var_initializer = None\<rparr>,
                  \<lparr>var_name = ''bias'', var_shape = [8 * num_units self0], var_initializer = Some (zeros_initializer (dtype self0))\<rparr>],
               built := True\<rparr>)"
  by (simp add: AdvancedNeatCell_build_def add_variable_def WEIGHTS_VARIABLE_NAME_def BIAS_VARIABLE_NAME_def Let_def)

lemma basic_build_ready:
  assumes "BasicNeatCell_build self0 [b, Some d] = Inr self" "variables_match self ws"
  shows "kernel self \<noteq> None" "bias self \<noteq> None" "num_units self = num_units self0"
    "state_is_tuple self = state_is_tuple self0"
    "has_shape (kernel_value ws) (d + num_units self0) (8 * num_units self0)"
    "length (bias_value ws) = 8 * num_units self0"
  using assms unfolding basic_build_Inr
  by (auto simp add: variables_match_def has_shape_def)

lemma advanced_build_ready:
  assumes "AdvancedNeatCell_build self0 [b, Some d] = Inr self" "variables_match self ws"
  shows "kernel self \<noteq> None" "bias self \<noteq> None" "num_units self = num_units self0"
    "state_is_tuple self = state_is_tuple self0"
    "has_shape (kernel_value ws) (d + num_units self0) (8 * num_units self0)"
    "length (bias_value ws) = 8 * num_units self0"
  using assms unfolding advanced_build_Inr
  by (auto simp add: variables_match_def has_shape_def)

lemmas call_defs = BasicNeatCell_call_def AdvancedNeatCell_call_def unpack_state_def pack_state_def
  BasicNeatCell_step_def AdvancedNeatCell_step_def BasicNeatCell_projections_def
  AdvancedNeatCell_projections_def BasicNeatCell_weights_def AdvancedNeatCell_weights_def

lemma call_ignores_fields:
  "BasicNeatCell_call (self\<lparr>forget_bias := fb, activation := act\<rparr>) ws x st = BasicNeatCell_call self ws x st"
  "AdvancedNeatCell_call (self\<lparr>forget_bias := fb, activation := act\<rparr>) ws x st = AdvancedNeatCell_call self ws x st"
  by (simp_all add: call_defs Let_def cong: if_cong)


lemma build_ignores_fields:
  "BasicNeatCell_build (self\<lparr>forget_bias := fb, activation := a\<rparr>) shape =
     and_then (BasicNeatCell_build self shape) (\<lambda>c. Inr (c\<lparr>forget_bias := fb, activation := a\<rparr>))"
  "AdvancedNeatCell_build (self\<lparr>forget_bias := fb, activation := a\<rparr>) shape =
     and_then (AdvancedNeatCell_build self shape) (\<lambda>c. Inr (c\<lparr>forget_bias := fb, activation := a\<rparr>))"
  by (simp_all add: BasicNeatCell_build_def AdvancedNeatCell_build_def add_variable_def Let_def
        split: option.splits)

lemma init_fields:
  "fst (BasicNeatCell_init n fb tup act reuse' name' dtype') =
     (fst (BasicNeatCell_init n 0 tup None reuse' name' dtype'))
       \<lparr>forget_bias := fb, activation := (case act of None \<Rightarrow> tanh_float | Some f \<Rightarrow> f)\<rparr>"
  "fst (AdvancedNeatCell_init n fb tup act reuse' name' dtype') =
     (fst (AdvancedNeatCell_init n 0 tup None reuse' name' dtype'))
       \<lparr>forget_bias := fb, activation := (case act of None \<Rightarrow> tanh_float | Some f \<Rightarrow> f)\<rparr>"
  by (simp_all add: BasicNeatCell_init_def AdvancedNeatCell_init_def)

lemma and_then_assoc: "and_then (and_then r f) g = and_then r (\<lambda>x. and_then (f x) g)"
  by (cases r) simp_all

lemma has_shape_state_of:
  "state_matches (state_of tup (tabulate bs n f) (tabulate bs n g)) bs
     (if tup then LSTMStateTuple_size n n else Size (2 * n))"
  by (simp add: state_of_def)

lemma zeros_tabulate: "zeros r c = tabulate r c (\<lambda>i j. 0)"
  by (simp add: zeros_def tabulate_def map_replicate_const)

lemma has_shape_zeros [simp]: "has_shape (zeros r c) r' c' \<longleftrightarrow> r = r' \<and> c = c'"
  by (simp add: zeros_tabulate)

lemma entry_zeros [simp]: "i < r \<Longrightarrow> j < c \<Longrightarrow> entry (zeros r c) i j = 0"
  by (simp add: zeros_tabulate)

lemma dim_zeros [simp]: "dim0 (zeros r c) = r" "dim1 (zeros r c) = c"
  by (simp_all add: zeros_def)

lemma build_same: "AdvancedNeatCell_build self shape = BasicNeatCell_build self shape"
  by (simp add: BasicNeatCell_build_def AdvancedNeatCell_build_def)


lemma variables_match_built:
  assumes "BasicNeatCell_build self0 [b, Some d] = Inr self"
  shows "variables_match self ws \<longleftrightarrow>
     has_shape (kernel_value ws) (d + num_units self0) (8 * num_units self0)
     \<and> length (bias_value ws) = 8 * num_units self0"
  using assms unfolding basic_build_Inr
  by (auto simp add: variables_match_def has_shape_def)

lemma example_cell:
  obtains self where
    "BasicNeatCell_build (fst (BasicNeatCell_init 1 fb tup None None None None)) [None, Some 1] = Inr self"
    "AdvancedNeatCell_build (fst (BasicNeatCell_init 1 fb tup None None None None)) [None, Some 1] = Inr self"
    "variables_match self \<lparr>kernel_value = zeros 2 8, bias_value = replicate 8 0\<rparr>"
    "num_units self = 1" "state_is_tuple self = tup"
proof -
  let ?self0 = "fst (BasicNeatCell_init 1 fb tup None None None None)"
  obtain self where b: "BasicNeatCell_build ?self0 [None, Some 1] = Inr self"
    using basic_build_Inr by blast
  have "variables_match self \<lparr>kernel_value = zeros 2 8, bias_value = replicate 8 0\<rparr>"
    by (simp add: variables_match_built[OF b] BasicNeatCell_init_def)
  moreover have "num_units self = 1" "state_is_tuple self = tup"
    using b unfolding basic_build_Inr by (auto simp add: BasicNeatCell_init_def)
  ultimately show ?thesis using that b by (simp add: build_same)
qed

lemma unpack_state_shaped:
  assumes "state_matches st bs (if state_is_tuple self then LSTMStateTuple_size n n else Size (2 * n))"
  obtains c h where "unpack_state self st = Inr (c, h)" "has_shape c bs n" "has_shape h bs n"
  using assms
proof (cases rule: state_matches_cases)
  case (1 c h)
  then show ?thesis using that by (simp add: unpack_state_tuple)
next
  case (2 s)
  then show ?thesis using that unpack_state_tensor[OF 2(1,3)] by simp
qed

lemma basic_call_decomposed:
  assumes "kernel self \<noteq> None" "bias self \<noteq> None" "num_units self = n"
    "has_shape (kernel_value ws) (d + n) (8 * n)" "length (bias_value ws) = 8 * n"
    "has_shape x bs d" "state_matches st bs (BasicNeatCell_state_size self)"
  shows "\<exists>c h new_c new_h. unpack_state self st = Inr (c, h)
      \<and> BasicNeatCell_step self ws x c h = Inr (new_c, new_h)
      \<and> has_shape new_c bs n \<and> has_shape new_h bs n
      \<and> BasicNeatCell_call self ws x st = Inr (new_h, state_of (state_is_tuple self) new_c new_h)"
proof -
  from assms(3,7) have "state_matches st bs (if state_is_tuple self then LSTMStateTuple_size n n else Size (2 * n))"
    by (auto simp add: BasicNeatCell_state_size_def)
  then obtain c h where u: "unpack_state self st = Inr (c, h)" "has_shape c bs n" "has_shape h bs n"
    by (rule unpack_state_shaped)
  note s = basic_step_shaped[OF assms(1-6) u(2,3)]
  show ?thesis
    using u(1) s by (simp add: BasicNeatCell_call_def pack_state_tabulate)
qed

lemma advanced_call_decomposed:
  assumes "kernel self \<noteq> None" "bias self \<noteq> None" "num_units self = n"
    "has_shape (kernel_value ws) (d + n) (8 * n)" "length (bias_value ws) = 8 * n"
    "has_shape x bs d" "state_matches st bs (AdvancedNeatCell_state_size self)"
  shows "\<exists>c h new_c new_h. unpack_state self st = Inr (c, h)
      \<and> AdvancedNeatCell_step self ws x c h = Inr (new_c, new_h)
      \<and> has_shape new_c bs n \<and> has_shape new_h bs n
      \<and> AdvancedNeatCell_call self ws x st = Inr (new_h, state_of (state_is_tuple self) new_c new_h)"
proof -
  from assms(3,7) have "state_matches st bs (if state_is_tuple self then LSTMStateTuple_size n n else Size (2 * n))"
    by (auto simp add: AdvancedNeatCell_state_size_def)
  then obtain c h where u: "unpack_state self st = Inr (c, h)" "has_shape c bs n" "has_shape h bs n"
    by (rule unpack_state_shaped)
  note s = advanced_step_shaped[OF assms(1-6) u(2,3)]
  show ?thesis
    using u(1) s by (simp add: AdvancedNeatCell_call_def pack_state_tabulate)
qed

lemma state_c_state_of:
  "i < bs \<Longrightarrow> j < n \<Longrightarrow> state_c (state_of tup (tabulate bs n f) (tabulate bs n g)) n i j = f i j"
  by (simp add: state_of_def)


lemma tanh_float_0 [simp]: "tanh_float 0 = 0"
  by (simp add: tanh_float_def)











lemma has_shape_Tensor [simp]:
  "has_shape (Tensor r c vs) r' c' \<longleftrightarrow>
     length vs = r \<and> list_all (\<lambda>row. length row = c) vs \<and> r = r' \<and> c = c'"
  by (auto simp add: has_shape_def well_shaped_def)

lemma entry_Tensor [simp]: "entry (Tensor r c vs) i j = vs ! i ! j"
  by (simp add: entry_def)


lemma raises_simps [simp]:
  "raises_ValueError (Inr x) = False" "raises_ValueError (Inl OpError) = False"
  "raises_ValueError (Inl AttributeError) = False" "raises_ValueError (Inl TypeError) = False"
  "raises_ValueError (Inl IndexError) = False" "raises_ValueError (Inl (ValueError s)) = True"
  by (simp_all add: raises_ValueError_def)

lemma no_raise_and_then:
  "\<not> raises_ValueError r \<Longrightarrow> (\<And>x. \<not> raises_ValueError (f x)) \<Longrightarrow> \<not> raises_ValueError (and_then r f)"
  by (cases r) (simp_all add: raises_ValueError_def)

lemma no_raise_case_prod:
  "(\<And>a b. \<not> raises_ValueError (f a b)) \<Longrightarrow> \<not> raises_ValueError (case_prod f p)"
  by (cases p) simp

lemma no_raise_lift1: "\<not> raises_ValueError r \<Longrightarrow> \<not> raises_ValueError (lift1 f r)"
  by (cases r) (simp_all add: raises_ValueError_def)

lemma no_raise_lift2:
  "(\<And>a b. \<not> raises_ValueError (f a b)) \<Longrightarrow> \<not> raises_ValueError r \<Longrightarrow> \<not> raises_ValueError r'
     \<Longrightarrow> \<not> raises_ValueError (lift2 f r r')"
  by (cases r; cases r') (simp_all add: raises_ValueError_def)

lemma no_raise_ops:
  "\<not> raises_ValueError (elementwise f a b)"
  "\<not> raises_ValueError (math_ops_matmul a b)"
  "\<not> raises_ValueError (nn_ops_bias_add a v)"
  "\<not> raises_ValueError (array_ops_split a sp ax)"
  "\<not> raises_ValueError (array_ops_split1 v sp ax)"
  "\<not> raises_ValueError (array_ops_concat ts ax)"
  "\<not> raises_ValueError (unpack2 xs)"
  "\<not> raises_ValueError (unpack3 xs)"
  "\<not> raises_ValueError (unpack5 xs)"
  "\<not> raises_ValueError (unpack7 xs)"
  by (simp_all add: elementwise_def math_ops_matmul_def nn_ops_bias_add_def array_ops_split_def
      array_ops_split1_def array_ops_concat_def unpack2_def unpack3_def unpack5_def unpack7_def
      split: option.splits list.splits)

lemma no_raise_if:
  "\<not> raises_ValueError a \<Longrightarrow> \<not> raises_ValueError b \<Longrightarrow> \<not> raises_ValueError (if c then a else b)"
  by simp

lemmas no_raise_intros = no_raise_if no_raise_and_then no_raise_case_prod no_raise_lift1 no_raise_lift2 no_raise_ops

lemma no_raise_unpack_state: "\<not> raises_ValueError (unpack_state self st)"
  by (cases st) (simp_all add: unpack_state_def no_raise_intros)

lemma no_raise_pack_state: "\<not> raises_ValueError (pack_state self c h)"
  unfolding pack_state_def
  by (intro no_raise_intros | simp)+

lemma no_raise_formulas:
  "\<not> raises_ValueError (BasicNeatCell_new_c c a d g h)"
  "\<not> raises_ValueError (BasicNeatCell_new_h nc b c2 e f)"
  "\<not> raises_ValueError (AdvancedNeatCell_new_c c s v y z)"
  "\<not> raises_ValueError (AdvancedNeatCell_new_h nc t u w x)"
  unfolding BasicNeatCell_new_c_def BasicNeatCell_new_h_def AdvancedNeatCell_new_c_def AdvancedNeatCell_new_h_def multiply_t_def add_t_def tanh_t_def sigmoid_t_def relu_t_def identity_t_def math_ops_multiply_def math_ops_add_def
  by (intro no_raise_intros | simp)+

lemma no_raise_weights:
  "\<not> raises_ValueError (BasicNeatCell_weights self ws d)"
  "\<not> raises_ValueError (AdvancedNeatCell_weights self ws d)"
  unfolding BasicNeatCell_weights_def AdvancedNeatCell_weights_def Let_def
  by (intro no_raise_intros | simp)+

lemma no_raise_projections:
  "\<not> raises_ValueError (BasicNeatCell_projections self ws x h)"
  "\<not> raises_ValueError (AdvancedNeatCell_projections self ws x h)"
  unfolding BasicNeatCell_projections_def AdvancedNeatCell_projections_def Let_def math_ops_multiply_def math_ops_add_def gen_math_ops_maximum_def
  by (intro no_raise_intros no_raise_weights | simp)+

lemma no_raise_gates:
  "\<not> raises_ValueError (BasicNeatCell_gates bh)"
  "\<not> raises_ValueError (AdvancedNeatCell_gates sw xz)"
  unfolding BasicNeatCell_gates_def AdvancedNeatCell_gates_def
  by (intro no_raise_intros | simp)+

lemma no_raise_step:
  "\<not> raises_ValueError (BasicNeatCell_step self ws x c h)"
  "\<not> raises_ValueError (AdvancedNeatCell_step self ws x c h)"
  unfolding BasicNeatCell_step_def AdvancedNeatCell_step_def
  by (intro allI impI no_raise_intros no_raise_projections no_raise_gates no_raise_formulas
      | simp split: prod.splits)+

lemma no_raise_call:
  "\<not> raises_ValueError (BasicNeatCell_call self ws x st)"
  "\<not> raises_ValueError (AdvancedNeatCell_call self ws x st)"
  unfolding BasicNeatCell_call_def AdvancedNeatCell_call_def
  by (intro no_raise_intros no_raise_step no_raise_unpack_state no_raise_pack_state | simp)+


lemma length_2_cases:
  assumes "length xs = 2"
  obtains a b where "xs = [a, b]"
  using assms by (cases xs; cases "tl xs") auto

lemma build_outcome:
  "BasicNeatCell_build self0 [b, None] = Inl (ValueError [b, None])"
  "AdvancedNeatCell_build self0 [b, None] = Inl (ValueError [b, None])"
  by (simp_all add: BasicNeatCell_build_def AdvancedNeatCell_build_def)

lemma basic_weights_shaped:
  assumes "kernel self \<noteq> None" "bias self \<noteq> None" "num_units self = n"
    "has_shape (kernel_value ws) (d + n) (8 * n)" "length (bias_value ws) = 8 * n"
  shows "BasicNeatCell_weights self ws d =
    Inr (tabulate d n (entry (kernel_value ws)),
         tabulate n n (\<lambda>i j. entry (kernel_value ws) (d + i) j),
         tabulate d (7 * n) (\<lambda>i j. entry (kernel_value ws) i (n + j)),
         tabulate n (7 * n) (\<lambda>i j. entry (kernel_value ws) (d + i) (n + j)),
         take n (bias_value ws), drop n (bias_value ws))"
  using basic_weights_tabulate[OF assms(1,2,3,5), of d "entry (kernel_value ws)"] assms(4)
  by (simp add: has_shape_tabulate_entry mult.commute)


lemma basic_step_through_products:
  assumes "BasicNeatCell_weights self ws (dim1 x) = Inr (W_fi, W_fh, W_ri, W_rh, b_f, b_r)"
    and "math_ops_matmul h W_fh = math_ops_matmul h' W_fh"
    and "math_ops_matmul h W_rh = math_ops_matmul h' W_rh"
  shows "BasicNeatCell_step self ws x c h = BasicNeatCell_step self ws x c h'"
  using assms by (simp add: BasicNeatCell_step_def BasicNeatCell_projections_def)


lemma matmul_zeros_right:
  assumes "has_shape a r k"
  shows "math_ops_matmul a (zeros k c) = Inr (zeros r c)"
proof -
  have "math_ops_matmul (tabulate r k (entry a)) (tabulate k c (\<lambda>i j. 0)) = Inr (tabulate r c (\<lambda>i j. 0))"
    by (simp add: matmul_tabulate)
  then show ?thesis using assms by (simp add: has_shape_tabulate_entry zeros_tabulate)
qed

lemma basic_weights_zero_example:
  assumes "kernel self \<noteq> None" "bias self \<noteq> None" "num_units self = 1"
  shows "BasicNeatCell_weights self \<lparr>kernel_value = zeros 2 8, bias_value = replicate 8 0\<rparr> 1 =
    Inr (zeros 1 1, zeros 1 1, zeros 1 7, zeros 1 7, replicate 1 0, replicate 7 0)"
proof -
  have "BasicNeatCell_weights self \<lparr>kernel_value = zeros 2 8, bias_value = replicate 8 0\<rparr> 1 =
    Inr (tabulate 1 1 (entry (zeros 2 8)),
         tabulate 1 1 (\<lambda>i j. entry (zeros 2 8) (1 + i) j),
         tabulate 1 (7 * 1) (\<lambda>i j. entry (zeros 2 8) i (1 + j)),
         tabulate 1 (7 * 1) (\<lambda>i j. entry (zeros 2 8) (1 + i) (1 + j)),
         take 1 (replicate 8 0), drop 1 (replicate 8 0))"
    using basic_weights_shaped[OF assms, of "\<lparr>kernel_value = zeros 2 8, bias_value = replicate 8 0\<rparr>" 1]
    by simp
  then show ?thesis by (simp add: zeros_tabulate)
qed

lemma fill_tabulate: "fill r c v = tabulate r c (\<lambda>i j. v)"
  by (simp add: fill_def tabulate_def map_replicate_const)

lemma has_shape_fill [simp]: "has_shape (fill r c v) r' c' \<longleftrightarrow> r = r' \<and> c = c'"
  by (simp add: fill_tabulate)

lemma entry_fill [simp]: "i < r \<Longrightarrow> j < c \<Longrightarrow> entry (fill r c v) i j = v"
  by (simp add: fill_tabulate)












lemma piece_simps [simp]:
  "piece (x # xs) 0 = Inr x"
  "piece (x # xs) (Suc k) = piece xs k"
  "piece [] k = Inl OpError"
  by (simp_all add: piece_def)

lemma piece_numeral [simp]: "piece (x # xs) (numeral k) = piece xs (pred_numeral k)"
  by (simp add: piece_def numeral_eq_Suc)

lemma basic_graph_eval_tabulate:
  assumes "kernel self \<noteq> None" "bias self \<noteq> None" "length B = 8 * n"
  shows "eval self \<lparr>kernel_value = tabulate (d + n) (8 * n) K, bias_value = B\<rparr>
           (tabulate bs d X) (tabulate bs n C) (tabulate bs n H) (fst (BasicNeatCell_graph n d)) =
         Inr (Matrix (tabulate bs n (BasicNeatCell_new_c_entry K B d n X C H)))"
    and "eval self \<lparr>kernel_value = tabulate (d + n) (8 * n) K, bias_value = B\<rparr>
           (tabulate bs d X) (tabulate bs n C) (tabulate bs n H) (snd (BasicNeatCell_graph n d)) =
         Inr (Matrix (tabulate bs n (BasicNeatCell_new_h_entry K B d n X C H)))"
  using assms
  by (simp_all add: BasicNeatCell_graph_def Let_def BasicNeatCell_new_c_node_def BasicNeatCell_new_h_node_def
      op_tabulate unary_defs entry_defs two_off)

lemma basic_graph_eval_shaped:
  assumes "kernel self \<noteq> None" "bias self \<noteq> None" "num_units self = n"
    "has_shape (kernel_value ws) (d + n) (8 * n)" "length (bias_value ws) = 8 * n"
    "has_shape x bs d" "has_shape c bs n" "has_shape h bs n"
  shows "eval self ws x c h (fst (BasicNeatCell_graph n d)) =
           Inr (Matrix (tabulate bs n (BasicNeatCell_new_c_entry (entry (kernel_value ws)) (bias_value ws) d n (entry x) (entry c) (entry h))))"
    and "eval self ws x c h (snd (BasicNeatCell_graph n d)) =
           Inr (Matrix (tabulate bs n (BasicNeatCell_new_h_entry (entry (kernel_value ws)) (bias_value ws) d n (entry x) (entry c) (entry h))))"
  using basic_graph_eval_tabulate[OF assms(1,2,5), of d "entry (kernel_value ws)" bs "entry x" "entry c" "entry h"]
    assms(4,6,7,8)
  by (simp_all add: has_shape_tabulate_entry)

lemma advanced_graph_eval_tabulate:
  assumes "kernel self \<noteq> None" "bias self \<noteq> None" "length B = 8 * n"
  shows "eval self \<lparr>kernel_value = tabulate (d + n) (8 * n) K, bias_value = B\<rparr>
           (tabulate bs d X) (tabulate bs n C) (tabulate bs n H) (fst (AdvancedNeatCell_graph n d)) =
         Inr (Matrix (tabulate bs n (AdvancedNeatCell_new_c_entry K B d n X C H)))"
    and "eval self \<lparr>kernel_value = tabulate (d + n) (8 * n) K, bias_value = B\<rparr>
           (tabulate bs d X) (tabulate bs n C) (tabulate bs n H) (snd (AdvancedNeatCell_graph n d)) =
         Inr (Matrix (tabulate bs n (AdvancedNeatCell_new_h_entry K B d n X C H)))"
  using assms
  by (simp_all add: AdvancedNeatCell_graph_def Let_def AdvancedNeatCell_new_c_node_def AdvancedNeatCell_new_h_node_def
      op_tabulate unary_defs entry_defs two_off)

lemma advanced_graph_eval_shaped:
  assumes "kernel self \<noteq> None" "bias self \<noteq> None" "num_units self = n"
    "has_shape (kernel_value ws) (d + n) (8 * n)" "length (bias_value ws) = 8 * n"
    "has_shape x bs d" "has_shape c bs n" "has_shape h bs n"
  shows "eval self ws x c h (fst (AdvancedNeatCell_graph n d)) =
           Inr (Matrix (tabulate bs n (AdvancedNeatCell_new_c_entry (entry (kernel_value ws)) (bias_value ws) d n (entry x) (entry c) (entry h))))"
    and "eval self ws x c h (snd (AdvancedNeatCell_graph n d)) =
           Inr (Matrix (tabulate bs n (AdvancedNeatCell_new_h_entry (entry (kernel_value ws)) (bias_value ws) d n (entry x) (entry c) (entry h))))"
  using advanced_graph_eval_tabulate[OF assms(1,2,5), of d "entry (kernel_value ws)" bs "entry x" "entry c" "entry h"]
    assms(4,6,7,8)
  by (simp_all add: has_shape_tabulate_entry)

lemma formula_ops:
  "ops_of (BasicNeatCell_new_c_node c a d g h) =
     {Tanh, Add, Multiply, Relu, Sigmoid} \<union> ops_of c \<union> ops_of a \<union> ops_of d \<union> ops_of g \<union> ops_of h"
  "ops_of (BasicNeatCell_new_h_node nc b c2 e f) =
     {Tanh, Add, Multiply, Identity, Sigmoid} \<union> ops_of nc \<union> ops_of b \<union> ops_of c2 \<union> ops_of e \<union> ops_of f"
  "ops_of (AdvancedNeatCell_new_c_node c s v y z) =
     {Tanh, Add, Multiply, Identity, Relu, Sigmoid} \<union> ops_of c \<union> ops_of s \<union> ops_of v \<union> ops_of y \<union> ops_of z"
  "ops_of (AdvancedNeatCell_new_h_node nc t u w x) =
     {Tanh, Add, Multiply, Identity, Sigmoid} \<union> ops_of nc \<union> ops_of t \<union> ops_of u \<union> ops_of w \<union> ops_of x"
  by (auto simp add: BasicNeatCell_new_c_node_def BasicNeatCell_new_h_node_def
      AdvancedNeatCell_new_c_node_def AdvancedNeatCell_new_h_node_def)

lemma graph_ops:
  "ops_of (fst (BasicNeatCell_graph n d)) \<union> ops_of (snd (BasicNeatCell_graph n d)) =
     {Sigmoid, Tanh, Relu, Identity, MatMul, Add, Multiply, BiasAdd, Split}"
  "ops_of (fst (AdvancedNeatCell_graph n d)) \<union> ops_of (snd (AdvancedNeatCell_graph n d)) =
     {Sigmoid, Tanh, Relu, Identity, MatMul, Add, Multiply, BiasAdd, Split, Maximum}"
  by (auto simp add: BasicNeatCell_graph_def AdvancedNeatCell_graph_def Let_def formula_ops)








section \<open>The claims\<close>

text \<open>
  C10. The result of \<open>call\<close> does not depend on the constructor arguments \<open>forget_bias\<close>
  and \<open>activation\<close>: two cells constructed with different values of these two arguments
  and built for the same shape return the same result (or the same error) on the same
  weights, inputs and state; and overwriting the two stored fields of any cell does not
  change what its \<open>call\<close> returns.
\<close>

theorem forget_bias_and_activation_unused:
  "and_then (BasicNeatCell_build (fst (BasicNeatCell_init n fb tup act reuse' name' dtype')) inputs_shape)
       (\<lambda>self. BasicNeatCell_call self ws x st) =
   and_then (BasicNeatCell_build (fst (BasicNeatCell_init n fb' tup act' reuse' name' dtype')) inputs_shape)
       (\<lambda>self. BasicNeatCell_call self ws x st)
   \<and> and_then (AdvancedNeatCell_build (fst (AdvancedNeatCell_init n fb tup act reuse' name' dtype')) inputs_shape)
       (\<lambda>self. AdvancedNeatCell_call self ws x st) =
     and_then (AdvancedNeatCell_build (fst (AdvancedNeatCell_init n fb' tup act' reuse' name' dtype')) inputs_shape)
       (\<lambda>self. AdvancedNeatCell_call self ws x st)
   \<and> BasicNeatCell_call (self\<lparr>forget_bias := fb, activation := a\<rparr>) ws x st = BasicNeatCell_call self ws x st
   \<and> AdvancedNeatCell_call (self\<lparr>forget_bias := fb, activation := a\<rparr>) ws x st = AdvancedNeatCell_call self ws x st"
proof -
  have B: "and_then (BasicNeatCell_build (fst (BasicNeatCell_init n v tup w reuse' name' dtype')) inputs_shape)
          (\<lambda>self. BasicNeatCell_call self ws x st) =
        and_then (BasicNeatCell_build (fst (BasicNeatCell_init n 0 tup None reuse' name' dtype')) inputs_shape)
          (\<lambda>self. BasicNeatCell_call self ws x st)" for v w
    by (subst init_fields(1)) (simp add: build_ignores_fields and_then_assoc call_ignores_fields)
  have A: "and_then (AdvancedNeatCell_build (fst (AdvancedNeatCell_init n v tup w reuse' name' dtype')) inputs_shape)
          (\<lambda>self. AdvancedNeatCell_call self ws x st) =
        and_then (AdvancedNeatCell_build (fst (AdvancedNeatCell_init n 0 tup None reuse' name' dtype')) inputs_shape)
          (\<lambda>self. AdvancedNeatCell_call self ws x st)" for v w
    by (subst init_fields(2)) (simp add: build_ignores_fields and_then_assoc call_ignores_fields)
  show ?thesis
    using B[of fb act] B[of fb' act'] A[of fb act] A[of fb' act'] by (simp add: call_ignores_fields)
qed

text \<open>
  C6. At the interface both cells look like an LSTM cell: \<open>output_size\<close> is \<open>num_units\<close>,
  \<open>state_size\<close> is the pair \<open>(num_units, num_units)\<close> when \<open>state_is_tuple\<close> holds and
  \<open>2 * num_units\<close> otherwise, and for a built cell, inputs of shape
  \<open>[batch_size, input_depth]\<close> and a state of the shapes \<open>state_size\<close> gives, \<open>call\<close>
  returns an output of shape \<open>[batch_size, output_size]\<close> and a new state of the same
  shapes \<open>state_size\<close> gives.
\<close>

theorem sizes_and_call_shapes:
  assumes "variables_match self ws" and "has_shape x bs d"
  shows "BasicNeatCell_output_size self = num_units self
    \<and> AdvancedNeatCell_output_size self = num_units self
    \<and> BasicNeatCell_state_size self =
        (if state_is_tuple self then LSTMStateTuple_size (num_units self) (num_units self)
         else Size (2 * num_units self))
    \<and> AdvancedNeatCell_state_size self =
        (if state_is_tuple self then LSTMStateTuple_size (num_units self) (num_units self)
         else Size (2 * num_units self))
    \<and> (BasicNeatCell_build self0 [b, Some d] = Inr self
         \<and> state_matches st bs (BasicNeatCell_state_size self) \<longrightarrow>
       (\<exists>out st'. BasicNeatCell_call self ws x st = Inr (out, st')
          \<and> has_shape out bs (BasicNeatCell_output_size self)
          \<and> state_matches st' bs (BasicNeatCell_state_size self)))
    \<and> (AdvancedNeatCell_build self0 [b, Some d] = Inr self
         \<and> state_matches st bs (AdvancedNeatCell_state_size self) \<longrightarrow>
       (\<exists>out st'. AdvancedNeatCell_call self ws x st = Inr (out, st')
          \<and> has_shape out bs (AdvancedNeatCell_output_size self)
          \<and> state_matches st' bs (AdvancedNeatCell_state_size self)))"
proof -
  have basic: "\<exists>out st'. BasicNeatCell_call self ws x st = Inr (out, st')
          \<and> has_shape out bs (BasicNeatCell_output_size self)
          \<and> state_matches st' bs (BasicNeatCell_state_size self)"
    if bld: "BasicNeatCell_build self0 [b, Some d] = Inr self"
      and st: "state_matches st bs (BasicNeatCell_state_size self)"
  proof -
    note r = basic_build_ready[OF bld assms(1)]
    have "has_shape (kernel_value ws) (d + num_units self) (8 * num_units self)"
      "length (bias_value ws) = 8 * num_units self"
      using r by simp_all
    from basic_call_shaped[OF r(1,2) refl this assms(2) st]
    show ?thesis
      by (simp add: BasicNeatCell_output_size_def BasicNeatCell_state_size_def has_shape_state_of)
  qed
  have advanced: "\<exists>out st'. AdvancedNeatCell_call self ws x st = Inr (out, st')
          \<and> has_shape out bs (AdvancedNeatCell_output_size self)
          \<and> state_matches st' bs (AdvancedNeatCell_state_size self)"
    if bld: "AdvancedNeatCell_build self0 [b, Some d] = Inr self"
      and st: "state_matches st bs (AdvancedNeatCell_state_size self)"
  proof -
    note r = advanced_build_ready[OF bld assms(1)]
    have "has_shape (kernel_value ws) (d + num_units self) (8 * num_units self)"
      "length (bias_value ws) = 8 * num_units self"
      using r by simp_all
    from advanced_call_shaped[OF r(1,2) refl this assms(2) st]
    show ?thesis
      by (simp add: AdvancedNeatCell_output_size_def AdvancedNeatCell_state_size_def has_shape_state_of)
  qed
  show ?thesis
    using basic advanced
    by (simp add: BasicNeatCell_output_size_def AdvancedNeatCell_output_size_def
        BasicNeatCell_state_size_def AdvancedNeatCell_state_size_def)
qed

theorem sizes_and_call_shapes_witness:
  "\<exists>self. BasicNeatCell_build (fst (BasicNeatCell_init 1 1 True None None None None)) [None, Some 1] = Inr self
     \<and> AdvancedNeatCell_build (fst (BasicNeatCell_init 1 1 True None None None None)) [None, Some 1] = Inr self
     \<and> variables_match self \<lparr>kernel_value = zeros 2 8, bias_value = replicate 8 0\<rparr>
     \<and> has_shape (zeros 3 1) 3 1
     \<and> state_matches (LSTMStateTuple (zeros 3 1) (zeros 3 1)) 3 (BasicNeatCell_state_size self)
     \<and> state_matches (LSTMStateTuple (zeros 3 1) (zeros 3 1)) 3 (AdvancedNeatCell_state_size self)
     \<and> (\<exists>out st'. BasicNeatCell_call self \<lparr>kernel_value = zeros 2 8, bias_value = replicate 8 0\<rparr> (zeros 3 1)
            (LSTMStateTuple (zeros 3 1) (zeros 3 1)) = Inr (out, st')
          \<and> has_shape out 3 (BasicNeatCell_output_size self)
          \<and> state_matches st' 3 (BasicNeatCell_state_size self))
     \<and> (\<exists>out st'. AdvancedNeatCell_call self \<lparr>kernel_value = zeros 2 8, bias_value = replicate 8 0\<rparr> (zeros 3 1)
            (LSTMStateTuple (zeros 3 1) (zeros 3 1)) = Inr (out, st')
          \<and> has_shape out 3 (AdvancedNeatCell_output_size self)
          \<and> state_matches st' 3 (AdvancedNeatCell_state_size self))"
proof -
  obtain self where s:
    "BasicNeatCell_build (fst (BasicNeatCell_init 1 1 True None None None None)) [None, Some 1] = Inr self"
    "AdvancedNeatCell_build (fst (BasicNeatCell_init 1 1 True None None None None)) [None, Some 1] = Inr self"
    "variables_match self \<lparr>kernel_value = zeros 2 8, bias_value = replicate 8 0\<rparr>"
    "num_units self = 1" "state_is_tuple self = True"
    by (rule example_cell)
  have x: "has_shape (zeros 3 1) 3 1" by simp
  have st: "state_matches (LSTMStateTuple (zeros 3 1) (zeros 3 1)) 3 (BasicNeatCell_state_size self)"
    "state_matches (LSTMStateTuple (zeros 3 1) (zeros 3 1)) 3 (AdvancedNeatCell_state_size self)"
    using s(4,5) by (simp_all add: BasicNeatCell_state_size_def AdvancedNeatCell_state_size_def)
  from sizes_and_call_shapes[OF s(3) x, of "fst (BasicNeatCell_init 1 1 True None None None None)" None
      "LSTMStateTuple (zeros 3 1) (zeros 3 1)"] s(1,2) st
  have "(\<exists>out st'. BasicNeatCell_call self \<lparr>kernel_value = zeros 2 8, bias_value = replicate 8 0\<rparr> (zeros 3 1)
            (LSTMStateTuple (zeros 3 1) (zeros 3 1)) = Inr (out, st')
          \<and> has_shape out 3 (BasicNeatCell_output_size self)
          \<and> state_matches st' 3 (BasicNeatCell_state_size self))
     \<and> (\<exists>out st'. AdvancedNeatCell_call self \<lparr>kernel_value = zeros 2 8, bias_value = replicate 8 0\<rparr> (zeros 3 1)
            (LSTMStateTuple (zeros 3 1) (zeros 3 1)) = Inr (out, st')
          \<and> has_shape out 3 (AdvancedNeatCell_output_size self)
          \<and> state_matches st' 3 (AdvancedNeatCell_state_size self))"
    by blast
  with s(1,2,3) x st show ?thesis by blast
qed

text \<open>
  C1. For a built cell of either class, inputs of shape \<open>[batch_size, input_depth]\<close> and a
  previous state of the shapes \<open>state_size\<close> gives, \<open>call\<close> returns a pair: its first
  component is \<open>new_h\<close>, its second component carries \<open>new_c\<close> and \<open>new_h\<close>, as the
  \<open>LSTMStateTuple\<close> of the two when \<open>state_is_tuple\<close> holds and as the tensor with the
  columns of \<open>new_c\<close> followed by the columns of \<open>new_h\<close> otherwise. Here \<open>new_c\<close> and
  \<open>new_h\<close> are the two tensors that lines 257-258 (436-437) compute from the previous
  state and the inputs.
\<close>

theorem call_returns_new_h_and_new_state:
  assumes "variables_match self ws" and "has_shape x bs d"
  shows "(BasicNeatCell_build self0 [b, Some d] = Inr self
         \<and> state_matches st bs (BasicNeatCell_state_size self) \<longrightarrow>
       (\<exists>c h new_c new_h. unpack_state self st = Inr (c, h)
          \<and> BasicNeatCell_step self ws x c h = Inr (new_c, new_h)
          \<and> has_shape new_c bs (num_units self) \<and> has_shape new_h bs (num_units self)
          \<and> BasicNeatCell_call self ws x st =
              Inr (new_h, state_of (state_is_tuple self) new_c new_h)))
    \<and> (AdvancedNeatCell_build self0 [b, Some d] = Inr self
         \<and> state_matches st bs (AdvancedNeatCell_state_size self) \<longrightarrow>
       (\<exists>c h new_c new_h. unpack_state self st = Inr (c, h)
          \<and> AdvancedNeatCell_step self ws x c h = Inr (new_c, new_h)
          \<and> has_shape new_c bs (num_units self) \<and> has_shape new_h bs (num_units self)
          \<and> AdvancedNeatCell_call self ws x st =
              Inr (new_h, state_of (state_is_tuple self) new_c new_h)))"
proof (intro conjI impI)
  assume a: "BasicNeatCell_build self0 [b, Some d] = Inr self
         \<and> state_matches st bs (BasicNeatCell_state_size self)"
  note r = basic_build_ready[OF conjunct1[OF a] assms(1)]
  have "has_shape (kernel_value ws) (d + num_units self) (8 * num_units self)"
    "length (bias_value ws) = 8 * num_units self"
    using r by simp_all
  from basic_call_decomposed[OF r(1,2) refl this assms(2) conjunct2[OF a]]
  show "\<exists>c h new_c new_h. unpack_state self st = Inr (c, h)
          \<and> BasicNeatCell_step self ws x c h = Inr (new_c, new_h)
          \<and> has_shape new_c bs (num_units self) \<and> has_shape new_h bs (num_units self)
          \<and> BasicNeatCell_call self ws x st =
              Inr (new_h, state_of (state_is_tuple self) new_c new_h)" .
next
  assume a: "AdvancedNeatCell_build self0 [b, Some d] = Inr self
         \<and> state_matches st bs (AdvancedNeatCell_state_size self)"
  note r = advanced_build_ready[OF conjunct1[OF a] assms(1)]
  have "has_shape (kernel_value ws) (d + num_units self) (8 * num_units self)"
    "length (bias_value ws) = 8 * num_units self"
    using r by simp_all
  from advanced_call_decomposed[OF r(1,2) refl this assms(2) conjunct2[OF a]]
  show "\<exists>c h new_c new_h. unpack_state self st = Inr (c, h)
          \<and> AdvancedNeatCell_step self ws x c h = Inr (new_c, new_h)
          \<and> has_shape new_c bs (num_units self) \<and> has_shape new_h bs (num_units self)
          \<and> AdvancedNeatCell_call self ws x st =
              Inr (new_h, state_of (state_is_tuple self) new_c new_h)" .
qed

theorem call_returns_new_h_and_new_state_witness:
  "\<exists>self. BasicNeatCell_build (fst (BasicNeatCell_init 1 1 False None None None None)) [None, Some 1] = Inr self
     \<and> AdvancedNeatCell_build (fst (BasicNeatCell_init 1 1 False None None None None)) [None, Some 1] = Inr self
     \<and> variables_match self \<lparr>kernel_value = zeros 2 8, bias_value = replicate 8 0\<rparr>
     \<and> has_shape (zeros 2 1) 2 1
     \<and> state_matches (StateTensor (zeros 2 2)) 2 (BasicNeatCell_state_size self)
     \<and> state_matches (StateTensor (zeros 2 2)) 2 (AdvancedNeatCell_state_size self)
     \<and> (\<exists>c h new_c new_h. unpack_state self (StateTensor (zeros 2 2)) = Inr (c, h)
          \<and> BasicNeatCell_step self \<lparr>kernel_value = zeros 2 8, bias_value = replicate 8 0\<rparr> (zeros 2 1) c h
               = Inr (new_c, new_h)
          \<and> has_shape new_c 2 (num_units self) \<and> has_shape new_h 2 (num_units self)
          \<and> BasicNeatCell_call self \<lparr>kernel_value = zeros 2 8, bias_value = replicate 8 0\<rparr> (zeros 2 1)
               (StateTensor (zeros 2 2)) = Inr (new_h, state_of (state_is_tuple self) new_c new_h))
     \<and> (\<exists>c h new_c new_h. unpack_state self (StateTensor (zeros 2 2)) = Inr (c, h)
          \<and> AdvancedNeatCell_step self \<lparr>kernel_value = zeros 2 8, bias_value = replicate 8 0\<rparr> (zeros 2 1) c h
               = Inr (new_c, new_h)
          \<and> has_shape new_c 2 (num_units self) \<and> has_shape new_h 2 (num_units self)
          \<and> AdvancedNeatCell_call self \<lparr>kernel_value = zeros 2 8, bias_value = replicate 8 0\<rparr> (zeros 2 1)
               (StateTensor (zeros 2 2)) = Inr (new_h, state_of (state_is_tuple self) new_c new_h))"
proof -
  obtain self where s:
    "BasicNeatCell_build (fst (BasicNeatCell_init 1 1 False None None None None)) [None, Some 1] = Inr self"
    "AdvancedNeatCell_build (fst (BasicNeatCell_init 1 1 False None None None None)) [None, Some 1] = Inr self"
    "variables_match self \<lparr>kernel_value = zeros 2 8, bias_value = replicate 8 0\<rparr>"
    "num_units self = 1" "state_is_tuple self = False"
    by (rule example_cell)
  have x: "has_shape (zeros 2 1) 2 1" by simp
  have st: "state_matches (StateTensor (zeros 2 2)) 2 (BasicNeatCell_state_size self)"
    "state_matches (StateTensor (zeros 2 2)) 2 (AdvancedNeatCell_state_size self)"
    using s(4,5) by (simp_all add: BasicNeatCell_state_size_def AdvancedNeatCell_state_size_def)
  from call_returns_new_h_and_new_state[OF s(3) x,
      of "fst (BasicNeatCell_init 1 1 False None None None None)" None "StateTensor (zeros 2 2)"]
  have "(\<exists>c h new_c new_h. unpack_state self (StateTensor (zeros 2 2)) = Inr (c, h)
          \<and> BasicNeatCell_step self \<lparr>kernel_value = zeros 2 8, bias_value = replicate 8 0\<rparr> (zeros 2 1) c h
               = Inr (new_c, new_h)
          \<and> has_shape new_c 2 (num_units self) \<and> has_shape new_h 2 (num_units self)
          \<and> BasicNeatCell_call self \<lparr>kernel_value = zeros 2 8, bias_value = replicate 8 0\<rparr> (zeros 2 1)
               (StateTensor (zeros 2 2)) = Inr (new_h, state_of (state_is_tuple self) new_c new_h))
     \<and> (\<exists>c h new_c new_h. unpack_state self (StateTensor (zeros 2 2)) = Inr (c, h)
          \<and> AdvancedNeatCell_step self \<lparr>kernel_value = zeros 2 8, bias_value = replicate 8 0\<rparr> (zeros 2 1) c h
               = Inr (new_c, new_h)
          \<and> has_shape new_c 2 (num_units self) \<and> has_shape new_h 2 (num_units self)
          \<and> AdvancedNeatCell_call self \<lparr>kernel_value = zeros 2 8, bias_value = replicate 8 0\<rparr> (zeros 2 1)
               (StateTensor (zeros 2 2)) = Inr (new_h, state_of (state_is_tuple self) new_c new_h))"
    using s(1,2) st by blast
  with s(1,2,3) x st show ?thesis by blast
qed

text \<open>
  C4. The only exception the cells raise themselves is the \<open>ValueError\<close> of \<open>build\<close>. On an
  input shape of rank 2 (the cells declare that their inputs are 2-dimensional), \<open>build\<close>
  fails exactly when the last dimension is unknown, and then with that \<open>ValueError\<close>;
  \<open>call\<close> never returns that exception (errors of \<open>call\<close> come from the framework
  operations or from a missing \<open>build\<close>); and when the last dimension is known, \<open>build\<close>
  returns the built cell and \<open>call\<close>, on values of the variables, inputs and a state of
  the shapes the cell was built for, returns a result.
\<close>

theorem only_own_failure_is_shape_check:
  assumes "length inputs_shape = 2"
  shows "(case BasicNeatCell_build self0 inputs_shape of
            Inl e \<Rightarrow> e = ValueError inputs_shape \<and> last inputs_shape = None
          | Inr self' \<Rightarrow> last inputs_shape \<noteq> None)
    \<and> (case AdvancedNeatCell_build self0 inputs_shape of
            Inl e \<Rightarrow> e = ValueError inputs_shape \<and> last inputs_shape = None
          | Inr self' \<Rightarrow> last inputs_shape \<noteq> None)
    \<and> \<not> raises_ValueError (BasicNeatCell_call self ws x st)
    \<and> \<not> raises_ValueError (AdvancedNeatCell_call self ws x st)
    \<and> (BasicNeatCell_build self0 inputs_shape = Inr self \<and> last inputs_shape = Some d
         \<and> variables_match self ws \<and> has_shape x bs d
         \<and> state_matches st bs (BasicNeatCell_state_size self) \<longrightarrow>
       (\<exists>r. BasicNeatCell_call self ws x st = Inr r))
    \<and> (AdvancedNeatCell_build self0 inputs_shape = Inr self \<and> last inputs_shape = Some d
         \<and> variables_match self ws \<and> has_shape x bs d
         \<and> state_matches st bs (AdvancedNeatCell_state_size self) \<longrightarrow>
       (\<exists>r. AdvancedNeatCell_call self ws x st = Inr r))"
proof -
  obtain b dd where shape: "inputs_shape = [b, dd]"
    using assms by (rule length_2_cases)
  have builds: "(case BasicNeatCell_build self0 inputs_shape of
            Inl e \<Rightarrow> e = ValueError inputs_shape \<and> last inputs_shape = None
          | Inr self' \<Rightarrow> last inputs_shape \<noteq> None)
    \<and> (case AdvancedNeatCell_build self0 inputs_shape of
            Inl e \<Rightarrow> e = ValueError inputs_shape \<and> last inputs_shape = None
          | Inr self' \<Rightarrow> last inputs_shape \<noteq> None)"
  proof (cases dd)
    case None
    then show ?thesis by (simp add: shape build_outcome)
  next
    case (Some d')
    then show ?thesis by (simp add: shape basic_build_Inr advanced_build_Inr)
  qed
  have basic: "\<exists>r. BasicNeatCell_call self ws x st = Inr r"
    if a: "BasicNeatCell_build self0 inputs_shape = Inr self" "last inputs_shape = Some d"
      "variables_match self ws" "has_shape x bs d"
      "state_matches st bs (BasicNeatCell_state_size self)"
  proof -
    have bld: "BasicNeatCell_build self0 [b, Some d] = Inr self" using a(1,2) shape by simp
    note r = basic_build_ready[OF bld a(3)]
    have "has_shape (kernel_value ws) (d + num_units self) (8 * num_units self)"
      "length (bias_value ws) = 8 * num_units self"
      using r by simp_all
    from basic_call_shaped[OF r(1,2) refl this a(4,5)] show ?thesis by simp
  qed
  have advanced: "\<exists>r. AdvancedNeatCell_call self ws x st = Inr r"
    if a: "AdvancedNeatCell_build self0 inputs_shape = Inr self" "last inputs_shape = Some d"
      "variables_match self ws" "has_shape x bs d"
      "state_matches st bs (AdvancedNeatCell_state_size self)"
  proof -
    have bld: "AdvancedNeatCell_build self0 [b, Some d] = Inr self" using a(1,2) shape by simp
    note r = advanced_build_ready[OF bld a(3)]
    have "has_shape (kernel_value ws) (d + num_units self) (8 * num_units self)"
      "length (bias_value ws) = 8 * num_units self"
      using r by simp_all
    from advanced_call_shaped[OF r(1,2) refl this a(4,5)] show ?thesis by simp
  qed
  show ?thesis
    using builds basic advanced no_raise_call[of self ws x st] by blast
qed

theorem only_own_failure_is_shape_check_witness:
  "\<exists>self. length [None, Some (1::nat)] = 2
     \<and> BasicNeatCell_build (fst (BasicNeatCell_init 1 1 True None None None None)) [None, Some 1] = Inr self
     \<and> AdvancedNeatCell_build (fst (BasicNeatCell_init 1 1 True None None None None)) [None, Some 1] = Inr self
     \<and> last [None, Some (1::nat)] = Some 1
     \<and> variables_match self \<lparr>kernel_value = zeros 2 8, bias_value = replicate 8 0\<rparr>
     \<and> has_shape (zeros 2 1) 2 1
     \<and> state_matches (LSTMStateTuple (zeros 2 1) (zeros 2 1)) 2 (BasicNeatCell_state_size self)
     \<and> state_matches (LSTMStateTuple (zeros 2 1) (zeros 2 1)) 2 (AdvancedNeatCell_state_size self)
     \<and> \<not> raises_ValueError (BasicNeatCell_call self \<lparr>kernel_value = zeros 2 8, bias_value = replicate 8 0\<rparr> (zeros 2 1) (LSTMStateTuple (zeros 2 1) (zeros 2 1)))
     \<and> \<not> raises_ValueError (AdvancedNeatCell_call self \<lparr>kernel_value = zeros 2 8, bias_value = replicate 8 0\<rparr> (zeros 2 1) (LSTMStateTuple (zeros 2 1) (zeros 2 1)))
     \<and> (\<exists>r. BasicNeatCell_call self \<lparr>kernel_value = zeros 2 8, bias_value = replicate 8 0\<rparr> (zeros 2 1) (LSTMStateTuple (zeros 2 1) (zeros 2 1)) = Inr r)
     \<and> (\<exists>r. AdvancedNeatCell_call self \<lparr>kernel_value = zeros 2 8, bias_value = replicate 8 0\<rparr> (zeros 2 1) (LSTMStateTuple (zeros 2 1) (zeros 2 1)) = Inr r)"
proof -
  obtain self where s:
    "BasicNeatCell_build (fst (BasicNeatCell_init 1 1 True None None None None)) [None, Some 1] = Inr self"
    "AdvancedNeatCell_build (fst (BasicNeatCell_init 1 1 True None None None None)) [None, Some 1] = Inr self"
    "variables_match self \<lparr>kernel_value = zeros 2 8, bias_value = replicate 8 0\<rparr>"
    "num_units self = 1" "state_is_tuple self = True"
    by (rule example_cell)
  have len: "length [None, Some (1::nat)] = 2" and l: "last [None, Some (1::nat)] = Some 1"
    and x: "has_shape (zeros 2 1) 2 1"
    by simp_all
  have st: "state_matches (LSTMStateTuple (zeros 2 1) (zeros 2 1)) 2 (BasicNeatCell_state_size self)"
    "state_matches (LSTMStateTuple (zeros 2 1) (zeros 2 1)) 2 (AdvancedNeatCell_state_size self)"
    using s(4,5) by (simp_all add: BasicNeatCell_state_size_def AdvancedNeatCell_state_size_def)
  from only_own_failure_is_shape_check[OF len,
      of "fst (BasicNeatCell_init 1 1 True None None None None)" self "\<lparr>kernel_value = zeros 2 8, bias_value = replicate 8 0\<rparr>" "zeros 2 1"
         "LSTMStateTuple (zeros 2 1) (zeros 2 1)" 1 2]
  have "\<not> raises_ValueError (BasicNeatCell_call self \<lparr>kernel_value = zeros 2 8, bias_value = replicate 8 0\<rparr> (zeros 2 1) (LSTMStateTuple (zeros 2 1) (zeros 2 1)))
     \<and> \<not> raises_ValueError (AdvancedNeatCell_call self \<lparr>kernel_value = zeros 2 8, bias_value = replicate 8 0\<rparr> (zeros 2 1) (LSTMStateTuple (zeros 2 1) (zeros 2 1)))
     \<and> (\<exists>r. BasicNeatCell_call self \<lparr>kernel_value = zeros 2 8, bias_value = replicate 8 0\<rparr> (zeros 2 1) (LSTMStateTuple (zeros 2 1) (zeros 2 1)) = Inr r)
     \<and> (\<exists>r. AdvancedNeatCell_call self \<lparr>kernel_value = zeros 2 8, bias_value = replicate 8 0\<rparr> (zeros 2 1) (LSTMStateTuple (zeros 2 1) (zeros 2 1)) = Inr r)"
    using s(1,2,3) l x st by blast
  with s(1,2,3) len l x st show ?thesis by blast
qed




text \<open>
  C8. In \<open>BasicNeatCell.call\<close> the split of line 246 gives the name \<open>h\<close> to the seventh
  piece of the projection \<open>bh\<close>, so the \<open>relu(h)\<close> of line 257 is applied to that piece
  (the columns \<open>7 * num_units + j\<close> of the kernel), not to the previous hidden state: on a
  built cell and well-shaped inputs, every entry of the new cell state is
  \<open>tanh (c + tanh (relu g7 * sigmoid g6)) * tanh (sigmoid g3 + relu a)\<close>, the tanh being
  that of the framework (\<open>tanh_float\<close>), with \<open>g3\<close>, \<open>g6\<close>, \<open>g7\<close> entries of \<open>bh\<close> and \<open>a\<close>
  the entry of the gate \<open>a\<close>. The previous hidden state enters the
  result only through the two matrix products \<open>matmul(h, W_fh)\<close> and \<open>matmul(h, W_rh)\<close>:
  two hidden states with the same two products give the same result.
\<close>

theorem relu_applies_to_seventh_gate:
  "(BasicNeatCell_build self0 [b, Some d] = Inr self \<and> variables_match self ws \<and> has_shape x bs d
      \<and> state_matches st bs (BasicNeatCell_state_size self) \<and> i < bs \<and> j < num_units self \<longrightarrow>
     (\<exists>out st'. BasicNeatCell_call self ws x st = Inr (out, st')
        \<and> state_c st' (num_units self) i j =
            tanh_float (state_c st (num_units self) i j
                  + tanh_float (relu (sum_col (entry (kernel_value ws)) (bias_value ws) d (num_units self)
                                  (entry x) (state_h st (num_units self)) i (7 * num_units self + j))
                          * sigmoid (sum_col (entry (kernel_value ws)) (bias_value ws) d (num_units self)
                                  (entry x) (state_h st (num_units self)) i (6 * num_units self + j))))
            * tanh_float (sigmoid (sum_col (entry (kernel_value ws)) (bias_value ws) d (num_units self)
                                  (entry x) (state_h st (num_units self)) i (3 * num_units self + j))
                    + relu (product_col (entry (kernel_value ws)) (bias_value ws) d (num_units self)
                                  (entry x) (state_h st (num_units self)) i j))))
   \<and> (BasicNeatCell_weights self ws (dim1 x) = Inr (W_fi, W_fh, W_ri, W_rh, b_f, b_r)
        \<and> math_ops_matmul h W_fh = math_ops_matmul h' W_fh
        \<and> math_ops_matmul h W_rh = math_ops_matmul h' W_rh \<longrightarrow>
      BasicNeatCell_step self ws x c h = BasicNeatCell_step self ws x c h'
      \<and> (state_is_tuple self \<longrightarrow>
           BasicNeatCell_call self ws x (LSTMStateTuple c h)
             = BasicNeatCell_call self ws x (LSTMStateTuple c h')))"
proof (intro conjI impI)
  assume a: "BasicNeatCell_build self0 [b, Some d] = Inr self \<and> variables_match self ws \<and> has_shape x bs d
      \<and> state_matches st bs (BasicNeatCell_state_size self) \<and> i < bs \<and> j < num_units self"
  then have bld: "BasicNeatCell_build self0 [b, Some d] = Inr self" and vm: "variables_match self ws"
    and x: "has_shape x bs d" and st: "state_matches st bs (BasicNeatCell_state_size self)"
    and ij: "i < bs" "j < num_units self"
    by simp_all
  note r = basic_build_ready[OF bld vm]
  have "has_shape (kernel_value ws) (d + num_units self) (8 * num_units self)"
    "length (bias_value ws) = 8 * num_units self"
    using r by simp_all
  note c = basic_call_shaped[OF r(1,2) refl this x st]
  show "\<exists>out st'. BasicNeatCell_call self ws x st = Inr (out, st')
        \<and> state_c st' (num_units self) i j =
            tanh_float (state_c st (num_units self) i j
                  + tanh_float (relu (sum_col (entry (kernel_value ws)) (bias_value ws) d (num_units self)
                                  (entry x) (state_h st (num_units self)) i (7 * num_units self + j))
                          * sigmoid (sum_col (entry (kernel_value ws)) (bias_value ws) d (num_units self)
                                  (entry x) (state_h st (num_units self)) i (6 * num_units self + j))))
            * tanh_float (sigmoid (sum_col (entry (kernel_value ws)) (bias_value ws) d (num_units self)
                                  (entry x) (state_h st (num_units self)) i (3 * num_units self + j))
                    + relu (product_col (entry (kernel_value ws)) (bias_value ws) d (num_units self)
                                  (entry x) (state_h st (num_units self)) i j))"
    using ij by (simp add: c state_c_state_of BasicNeatCell_new_c_entry_def nas1_new_c_def)
next
  assume a: "BasicNeatCell_weights self ws (dim1 x) = Inr (W_fi, W_fh, W_ri, W_rh, b_f, b_r)
        \<and> math_ops_matmul h W_fh = math_ops_matmul h' W_fh
        \<and> math_ops_matmul h W_rh = math_ops_matmul h' W_rh"
  then show s: "BasicNeatCell_step self ws x c h = BasicNeatCell_step self ws x c h'"
    using basic_step_through_products by blast
  assume "state_is_tuple self"
  then show "BasicNeatCell_call self ws x (LSTMStateTuple c h)
             = BasicNeatCell_call self ws x (LSTMStateTuple c h')"
    using s by (simp add: BasicNeatCell_call_def unpack_state_tuple)
qed


theorem relu_applies_to_seventh_gate_witness:
  "\<exists>self. BasicNeatCell_build (fst (BasicNeatCell_init 1 1 True None None None None)) [None, Some 1] = Inr self
     \<and> variables_match self \<lparr>kernel_value = zeros 2 8, bias_value = replicate 8 0\<rparr> \<and> has_shape (zeros 1 1) 1 1
     \<and> state_matches (LSTMStateTuple (zeros 1 1) (zeros 1 1)) 1 (BasicNeatCell_state_size self) \<and> (0::nat) < 1 \<and> 0 < num_units self
     \<and> BasicNeatCell_weights self \<lparr>kernel_value = zeros 2 8, bias_value = replicate 8 0\<rparr> (dim1 (zeros 1 1))
          = Inr (zeros 1 1, zeros 1 1, zeros 1 7, zeros 1 7, replicate 1 0, replicate 7 0)
     \<and> math_ops_matmul (zeros 1 1) (zeros 1 1) = math_ops_matmul (Tensor 1 1 [[5]]) (zeros 1 1)
     \<and> math_ops_matmul (zeros 1 1) (zeros 1 7) = math_ops_matmul (Tensor 1 1 [[5]]) (zeros 1 7)
     \<and> state_is_tuple self
     \<and> (\<exists>out st'. BasicNeatCell_call self \<lparr>kernel_value = zeros 2 8, bias_value = replicate 8 0\<rparr> (zeros 1 1) (LSTMStateTuple (zeros 1 1) (zeros 1 1)) = Inr (out, st')
        \<and> state_c st' (num_units self) 0 0 =
            tanh_float (state_c (LSTMStateTuple (zeros 1 1) (zeros 1 1)) (num_units self) 0 0
                  + tanh_float (relu (sum_col (entry (kernel_value \<lparr>kernel_value = zeros 2 8, bias_value = replicate 8 0\<rparr>)) (bias_value \<lparr>kernel_value = zeros 2 8, bias_value = replicate 8 0\<rparr>) 1 (num_units self)
                                  (entry (zeros 1 1)) (state_h (LSTMStateTuple (zeros 1 1) (zeros 1 1)) (num_units self)) 0 (7 * num_units self + 0))
                          * sigmoid (sum_col (entry (kernel_value \<lparr>kernel_value = zeros 2 8, bias_value = replicate 8 0\<rparr>)) (bias_value \<lparr>kernel_value = zeros 2 8, bias_value = replicate 8 0\<rparr>) 1 (num_units self)
                                  (entry (zeros 1 1)) (state_h (LSTMStateTuple (zeros 1 1) (zeros 1 1)) (num_units self)) 0 (6 * num_units self + 0))))
            * tanh_float (sigmoid (sum_col (entry (kernel_value \<lparr>kernel_value = zeros 2 8, bias_value = replicate 8 0\<rparr>)) (bias_value \<lparr>kernel_value = zeros 2 8, bias_value = replicate 8 0\<rparr>) 1 (num_units self)
                                  (entry (zeros 1 1)) (state_h (LSTMStateTuple (zeros 1 1) (zeros 1 1)) (num_units self)) 0 (3 * num_units self + 0))
                    + relu (product_col (entry (kernel_value \<lparr>kernel_value = zeros 2 8, bias_value = replicate 8 0\<rparr>)) (bias_value \<lparr>kernel_value = zeros 2 8, bias_value = replicate 8 0\<rparr>) 1 (num_units self)
                                  (entry (zeros 1 1)) (state_h (LSTMStateTuple (zeros 1 1) (zeros 1 1)) (num_units self)) 0 0)))
     \<and> BasicNeatCell_step self \<lparr>kernel_value = zeros 2 8, bias_value = replicate 8 0\<rparr> (zeros 1 1) (zeros 1 1) (zeros 1 1)
        = BasicNeatCell_step self \<lparr>kernel_value = zeros 2 8, bias_value = replicate 8 0\<rparr> (zeros 1 1) (zeros 1 1) (Tensor 1 1 [[5]])
     \<and> BasicNeatCell_call self \<lparr>kernel_value = zeros 2 8, bias_value = replicate 8 0\<rparr> (zeros 1 1) (LSTMStateTuple (zeros 1 1) (zeros 1 1))
        = BasicNeatCell_call self \<lparr>kernel_value = zeros 2 8, bias_value = replicate 8 0\<rparr> (zeros 1 1) (LSTMStateTuple (zeros 1 1) (Tensor 1 1 [[5]]))"
proof -
  obtain self where s:
    "BasicNeatCell_build (fst (BasicNeatCell_init 1 1 True None None None None)) [None, Some 1] = Inr self"
    "AdvancedNeatCell_build (fst (BasicNeatCell_init 1 1 True None None None None)) [None, Some 1] = Inr self"
    "variables_match self \<lparr>kernel_value = zeros 2 8, bias_value = replicate 8 0\<rparr>"
    "num_units self = 1" "state_is_tuple self = True"
    by (rule example_cell)
  note r = basic_build_ready[OF s(1,3)]
  have x: "has_shape (zeros 1 1) 1 1" and i: "(0::nat) < 1" and j: "0 < num_units self"
    using s(4) by simp_all
  have st: "state_matches (LSTMStateTuple (zeros 1 1) (zeros 1 1)) 1 (BasicNeatCell_state_size self)"
    using s(4,5) by (simp add: BasicNeatCell_state_size_def)
  have w: "BasicNeatCell_weights self \<lparr>kernel_value = zeros 2 8, bias_value = replicate 8 0\<rparr> (dim1 (zeros 1 1))
          = Inr (zeros 1 1, zeros 1 1, zeros 1 7, zeros 1 7, replicate 1 0, replicate 7 0)"
    using basic_weights_zero_example[OF r(1,2) s(4)] by simp
  have m: "math_ops_matmul (zeros 1 1) (zeros 1 1) = math_ops_matmul (Tensor 1 1 [[5]]) (zeros 1 1)"
    "math_ops_matmul (zeros 1 1) (zeros 1 7) = math_ops_matmul (Tensor 1 1 [[5]]) (zeros 1 7)"
    using matmul_zeros_right[of "zeros 1 1" 1 1 1] matmul_zeros_right[of "Tensor 1 1 [[5]]" 1 1 1]
      matmul_zeros_right[of "zeros 1 1" 1 1 7] matmul_zeros_right[of "Tensor 1 1 [[5]]" 1 1 7]
    by simp_all
  have t: "state_is_tuple self" using s(5) by simp
  from relu_applies_to_seventh_gate[of "fst (BasicNeatCell_init 1 1 True None None None None)" None 1 self
      "\<lparr>kernel_value = zeros 2 8, bias_value = replicate 8 0\<rparr>" "zeros 1 1" 1 "LSTMStateTuple (zeros 1 1) (zeros 1 1)" 0 0
      "zeros 1 1" "zeros 1 1" "zeros 1 7" "zeros 1 7" "replicate 1 0" "replicate 7 0"
      "zeros 1 1" "Tensor 1 1 [[5]]" "zeros 1 1"]
  have "(\<exists>out st'. BasicNeatCell_call self \<lparr>kernel_value = zeros 2 8, bias_value = replicate 8 0\<rparr> (zeros 1 1) (LSTMStateTuple (zeros 1 1) (zeros 1 1)) = Inr (out, st')
        \<and> state_c st' (num_units self) 0 0 =
            tanh_float (state_c (LSTMStateTuple (zeros 1 1) (zeros 1 1)) (num_units self) 0 0
                  + tanh_float (relu (sum_col (entry (kernel_value \<lparr>kernel_value = zeros 2 8, bias_value = replicate 8 0\<rparr>)) (bias_value \<lparr>kernel_value = zeros 2 8, bias_value = replicate 8 0\<rparr>) 1 (num_units self)
                                  (entry (zeros 1 1)) (state_h (LSTMStateTuple (zeros 1 1) (zeros 1 1)) (num_units self)) 0 (7 * num_units self + 0))
                          * sigmoid (sum_col (entry (kernel_value \<lparr>kernel_value = zeros 2 8, bias_value = replicate 8 0\<rparr>)) (bias_value \<lparr>kernel_value = zeros 2 8, bias_value = replicate 8 0\<rparr>) 1 (num_units self)
                                  (entry (zeros 1 1)) (state_h (LSTMStateTuple (zeros 1 1) (zeros 1 1)) (num_units self)) 0 (6 * num_units self + 0))))
            * tanh_float (sigmoid (sum_col (entry (kernel_value \<lparr>kernel_value = zeros 2 8, bias_value = replicate 8 0\<rparr>)) (bias_value \<lparr>kernel_value = zeros 2 8, bias_value = replicate 8 0\<rparr>) 1 (num_units self)
                                  (entry (zeros 1 1)) (state_h (LSTMStateTuple (zeros 1 1) (zeros 1 1)) (num_units self)) 0 (3 * num_units self + 0))
                    + relu (product_col (entry (kernel_value \<lparr>kernel_value = zeros 2 8, bias_value = replicate 8 0\<rparr>)) (bias_value \<lparr>kernel_value = zeros 2 8, bias_value = replicate 8 0\<rparr>) 1 (num_units self)
                                  (entry (zeros 1 1)) (state_h (LSTMStateTuple (zeros 1 1) (zeros 1 1)) (num_units self)) 0 0)))
     \<and> BasicNeatCell_step self \<lparr>kernel_value = zeros 2 8, bias_value = replicate 8 0\<rparr> (zeros 1 1) (zeros 1 1) (zeros 1 1)
        = BasicNeatCell_step self \<lparr>kernel_value = zeros 2 8, bias_value = replicate 8 0\<rparr> (zeros 1 1) (zeros 1 1) (Tensor 1 1 [[5]])
     \<and> BasicNeatCell_call self \<lparr>kernel_value = zeros 2 8, bias_value = replicate 8 0\<rparr> (zeros 1 1) (LSTMStateTuple (zeros 1 1) (zeros 1 1))
        = BasicNeatCell_call self \<lparr>kernel_value = zeros 2 8, bias_value = replicate 8 0\<rparr> (zeros 1 1) (LSTMStateTuple (zeros 1 1) (Tensor 1 1 [[5]]))"
    using s(1,3) x st i j w m t by blast
  with s(1,3) x st i j w m t show ?thesis by blast
qed




text \<open>
  C3, as stated, fails for AdvancedNeatCell: its transition applies an elementwise maximum
  (line 419), which is none of the operations the claim names.
\<close>

theorem maximum_in_advanced_step:
  "Maximum \<in> ops_of (fst (AdvancedNeatCell_graph 1 1))
   \<and> Maximum \<notin> named_ops
   \<and> \<not> (ops_of (fst (AdvancedNeatCell_graph 1 1)) \<union> ops_of (snd (AdvancedNeatCell_graph 1 1))
          \<subseteq> named_ops)"
proof -
  have "Maximum \<in> ops_of (fst (AdvancedNeatCell_graph 1 1)) \<union> ops_of (snd (AdvancedNeatCell_graph 1 1))"
    unfolding graph_ops by simp
  moreover have "Maximum \<in> ops_of (fst (AdvancedNeatCell_graph 1 1))"
    by (simp add: AdvancedNeatCell_graph_def Let_def formula_ops)
  moreover have "Maximum \<notin> named_ops" by (simp add: named_ops_def)
  ultimately show ?thesis by blast
qed

text \<open>
  C3, amended. In both cells the combination of the gates into \<open>new_c\<close> and \<open>new_h\<close> (lines
  257-258 and 436-437) applies only sigmoid, tanh, relu, identity and elementwise addition
  and multiplication. The whole transition of BasicNeatCell applies, besides these, only
  matrix multiplication, the addition of the bias and the split. The whole transition of
  AdvancedNeatCell applies the same operations and one more, an elementwise maximum (line
  419). The terms whose operations are counted are the transition: on a built cell and
  well-shaped arguments they evaluate to the \<open>new_c\<close> and \<open>new_h\<close> of the step.
\<close>

theorem operations_of_a_step:
  assumes "variables_match self ws" and "has_shape x bs d"
    and "has_shape c bs (num_units self)" and "has_shape h bs (num_units self)"
  shows "(BasicNeatCell_build self0 [b, Some d] = Inr self \<longrightarrow>
       (\<exists>new_c new_h. BasicNeatCell_step self ws x c h = Inr (new_c, new_h)
          \<and> eval self ws x c h (fst (BasicNeatCell_graph (num_units self) (dim1 x))) = Inr (Matrix new_c)
          \<and> eval self ws x c h (snd (BasicNeatCell_graph (num_units self) (dim1 x))) = Inr (Matrix new_h)))
    \<and> (AdvancedNeatCell_build self0 [b, Some d] = Inr self \<longrightarrow>
       (\<exists>new_c new_h. AdvancedNeatCell_step self ws x c h = Inr (new_c, new_h)
          \<and> eval self ws x c h (fst (AdvancedNeatCell_graph (num_units self) (dim1 x))) = Inr (Matrix new_c)
          \<and> eval self ws x c h (snd (AdvancedNeatCell_graph (num_units self) (dim1 x))) = Inr (Matrix new_h)))
    \<and> ops_of (BasicNeatCell_new_h_node (BasicNeatCell_new_c_node PrevC Inputs Inputs Inputs Inputs)
               Inputs Inputs Inputs Inputs)
        = {Sigmoid, Tanh, Relu, Identity, Add, Multiply}
    \<and> ops_of (AdvancedNeatCell_new_h_node (AdvancedNeatCell_new_c_node PrevC Inputs Inputs Inputs Inputs)
               Inputs Inputs Inputs Inputs)
        = {Sigmoid, Tanh, Relu, Identity, Add, Multiply}
    \<and> ops_of (fst (BasicNeatCell_graph n' d')) \<union> ops_of (snd (BasicNeatCell_graph n' d')) = named_ops
    \<and> ops_of (fst (AdvancedNeatCell_graph n' d')) \<union> ops_of (snd (AdvancedNeatCell_graph n' d'))
        = insert Maximum named_ops"
proof (intro conjI impI)
  assume bld: "BasicNeatCell_build self0 [b, Some d] = Inr self"
  note r = basic_build_ready[OF bld assms(1)]
  have k: "has_shape (kernel_value ws) (d + num_units self) (8 * num_units self)"
    "length (bias_value ws) = 8 * num_units self"
    using r by simp_all
  have d: "dim1 x = d" using assms(2) by (simp add: has_shape_def)
  show "(\<exists>new_c new_h. BasicNeatCell_step self ws x c h = Inr (new_c, new_h)
          \<and> eval self ws x c h (fst (BasicNeatCell_graph (num_units self) (dim1 x))) = Inr (Matrix new_c)
          \<and> eval self ws x c h (snd (BasicNeatCell_graph (num_units self) (dim1 x))) = Inr (Matrix new_h))"
    unfolding d
    using basic_step_shaped[OF r(1,2) refl k assms(2,3,4)]
      basic_graph_eval_shaped[OF r(1,2) refl k assms(2,3,4)]
    by simp
next
  assume bld: "AdvancedNeatCell_build self0 [b, Some d] = Inr self"
  note r = advanced_build_ready[OF bld assms(1)]
  have k: "has_shape (kernel_value ws) (d + num_units self) (8 * num_units self)"
    "length (bias_value ws) = 8 * num_units self"
    using r by simp_all
  have d: "dim1 x = d" using assms(2) by (simp add: has_shape_def)
  show "(\<exists>new_c new_h. AdvancedNeatCell_step self ws x c h = Inr (new_c, new_h)
          \<and> eval self ws x c h (fst (AdvancedNeatCell_graph (num_units self) (dim1 x))) = Inr (Matrix new_c)
          \<and> eval self ws x c h (snd (AdvancedNeatCell_graph (num_units self) (dim1 x))) = Inr (Matrix new_h))"
    unfolding d
    using advanced_step_shaped[OF r(1,2) refl k assms(2,3,4)]
      advanced_graph_eval_shaped[OF r(1,2) refl k assms(2,3,4)]
    by simp
qed (simp_all add: formula_ops graph_ops named_ops_def insert_commute)

theorem operations_of_a_step_witness:
  "\<exists>self. variables_match self \<lparr>kernel_value = zeros 2 8, bias_value = replicate 8 0\<rparr> \<and> has_shape (zeros 2 1) 2 1
     \<and> has_shape (zeros 2 1) 2 (num_units self)
     \<and> BasicNeatCell_build (fst (BasicNeatCell_init 1 1 True None None None None)) [None, Some 1] = Inr self
     \<and> AdvancedNeatCell_build (fst (BasicNeatCell_init 1 1 True None None None None)) [None, Some 1] = Inr self
     \<and> (\<exists>new_c new_h. BasicNeatCell_step self \<lparr>kernel_value = zeros 2 8, bias_value = replicate 8 0\<rparr> (zeros 2 1) (zeros 2 1) (zeros 2 1) = Inr (new_c, new_h)
          \<and> eval self \<lparr>kernel_value = zeros 2 8, bias_value = replicate 8 0\<rparr> (zeros 2 1) (zeros 2 1) (zeros 2 1) (fst (BasicNeatCell_graph (num_units self) (dim1 (zeros 2 1)))) = Inr (Matrix new_c)
          \<and> eval self \<lparr>kernel_value = zeros 2 8, bias_value = replicate 8 0\<rparr> (zeros 2 1) (zeros 2 1) (zeros 2 1) (snd (BasicNeatCell_graph (num_units self) (dim1 (zeros 2 1)))) = Inr (Matrix new_h))
     \<and> (\<exists>new_c new_h. AdvancedNeatCell_step self \<lparr>kernel_value = zeros 2 8, bias_value = replicate 8 0\<rparr> (zeros 2 1) (zeros 2 1) (zeros 2 1) = Inr (new_c, new_h)
          \<and> eval self \<lparr>kernel_value = zeros 2 8, bias_value = replicate 8 0\<rparr> (zeros 2 1) (zeros 2 1) (zeros 2 1) (fst (AdvancedNeatCell_graph (num_units self) (dim1 (zeros 2 1)))) = Inr (Matrix new_c)
          \<and> eval self \<lparr>kernel_value = zeros 2 8, bias_value = replicate 8 0\<rparr> (zeros 2 1) (zeros 2 1) (zeros 2 1) (snd (AdvancedNeatCell_graph (num_units self) (dim1 (zeros 2 1)))) = Inr (Matrix new_h))"
proof -
  obtain self where s:
    "BasicNeatCell_build (fst (BasicNeatCell_init 1 1 True None None None None)) [None, Some 1] = Inr self"
    "AdvancedNeatCell_build (fst (BasicNeatCell_init 1 1 True None None None None)) [None, Some 1] = Inr self"
    "variables_match self \<lparr>kernel_value = zeros 2 8, bias_value = replicate 8 0\<rparr>"
    "num_units self = 1" "state_is_tuple self = True"
    by (rule example_cell)
  have x: "has_shape (zeros 2 1) 2 1" and h: "has_shape (zeros 2 1) 2 (num_units self)"
    using s(4) by simp_all
  from operations_of_a_step[OF s(3) x h h,
      of "fst (BasicNeatCell_init 1 1 True None None None None)" None]
  have "(\<exists>new_c new_h. BasicNeatCell_step self \<lparr>kernel_value = zeros 2 8, bias_value = replicate 8 0\<rparr> (zeros 2 1) (zeros 2 1) (zeros 2 1) = Inr (new_c, new_h)
          \<and> eval self \<lparr>kernel_value = zeros 2 8, bias_value = replicate 8 0\<rparr> (zeros 2 1) (zeros 2 1) (zeros 2 1) (fst (BasicNeatCell_graph (num_units self) (dim1 (zeros 2 1)))) = Inr (Matrix new_c)
          \<and> eval self \<lparr>kernel_value = zeros 2 8, bias_value = replicate 8 0\<rparr> (zeros 2 1) (zeros 2 1) (zeros 2 1) (snd (BasicNeatCell_graph (num_units self) (dim1 (zeros 2 1)))) = Inr (Matrix new_h))
     \<and> (\<exists>new_c new_h. AdvancedNeatCell_step self \<lparr>kernel_value = zeros 2 8, bias_value = replicate 8 0\<rparr> (zeros 2 1) (zeros 2 1) (zeros 2 1) = Inr (new_c, new_h)
          \<and> eval self \<lparr>kernel_value = zeros 2 8, bias_value = replicate 8 0\<rparr> (zeros 2 1) (zeros 2 1) (zeros 2 1) (fst (AdvancedNeatCell_graph (num_units self) (dim1 (zeros 2 1)))) = Inr (Matrix new_c)
          \<and> eval self \<lparr>kernel_value = zeros 2 8, bias_value = replicate 8 0\<rparr> (zeros 2 1) (zeros 2 1) (zeros 2 1) (snd (AdvancedNeatCell_graph (num_units self) (dim1 (zeros 2 1)))) = Inr (Matrix new_h))"
    using s(1,2) by blast
  with s(1,2,3) x h show ?thesis by blast
qed








end
